theory Spec2Isabelle
  imports Complex_Main
begin

text \<open>
  The reconciliation core of the chargeback portal, as a shallow embedding of its
  TypeScript source: the comparator module (\<open>cleanId\<close>, \<open>findAnomalies\<close>,
  \<open>crossReferenceOpayo\<close>, \<open>crossReferencePenair\<close>) and, of the spreadsheet module,
  \<open>findKey\<close>, \<open>formatExcelDate\<close> and \<open>parseOpayoData\<close>. The functions are pure; the
  JavaScript operations they call on strings and numbers are defined first. Rows are
  plain objects whose cells are strings, numbers or absent; properties inherited from
  \<open>Object.prototype\<close> are not modelled, and \<open>console.warn\<close> is left out.
\<close>

section \<open>JavaScript strings\<close>

text \<open>
  A JavaScript string is modelled as a \<open>string\<close> (a list of \<open>char\<close>), one \<open>char\<close> per
  UTF-16 code unit, for the strings whose code units all lie below 256 (the Latin-1
  range). \<open>length\<close> is the property \<open>.length\<close>.
\<close>

definition is_digit :: "char \<Rightarrow> bool" where
  "is_digit c = (c \<in> set ''0123456789'')"

definition is_lower_az :: "char \<Rightarrow> bool" where
  "is_lower_az c = (c \<in> set ''abcdefghijklmnopqrstuvwxyz'')"

text \<open>
  The white space and line terminators that \<open>String.prototype.trim\<close> removes, below 256:
  TAB, LF, VT, FF, CR, SPACE and NO-BREAK SPACE, by their code units.
\<close>

definition is_space :: "char \<Rightarrow> bool" where
  "is_space c = ((of_char c :: int) \<in> {9, 10, 11, 12, 13, 32, 160})"

definition trim :: "string \<Rightarrow> string" where
  "trim s = rev (dropWhile is_space (rev (dropWhile is_space s)))"

text \<open>
  \<open>toLowerCase\<close> below 256: A..Z and the capital letters U+00C0..U+00DE (without the
  multiplication sign U+00D7) move up by 32; every other code unit stays.
\<close>

definition lower_char :: "char \<Rightarrow> char" where
  "lower_char c =
     (let n = (of_char c :: int)
      in if (65 \<le> n \<and> n \<le> 90) \<or> (192 \<le> n \<and> n \<le> 222 \<and> n \<noteq> 215)
         then char_of (n + 32) else c)"

definition toLowerCase :: "string \<Rightarrow> string" where
  "toLowerCase s = map lower_char s"

text \<open>\<open>s.includes(t)\<close>: \<open>t\<close> occurs in \<open>s\<close> as a contiguous run; the empty string occurs everywhere.\<close>

fun starts_with :: "string \<Rightarrow> string \<Rightarrow> bool" where
  "starts_with s [] = True"
| "starts_with [] (y # t) = False"
| "starts_with (x # s) (y # t) = (x = y \<and> starts_with s t)"

fun str_includes :: "string \<Rightarrow> string \<Rightarrow> bool" where
  "str_includes [] t = (t = [])"
| "str_includes (x # s) t = (starts_with (x # s) t \<or> str_includes s t)"

text \<open>\<open>s.slice(-4)\<close>: the last four code units, or all of \<open>s\<close> when it is shorter.\<close>

definition slice_last4 :: "string \<Rightarrow> string" where
  "slice_last4 s = drop (length s - 4) s"

text \<open>
  \<open>s.replace(/\.0+$/, '')\<close>: the only possible match is a dot followed by one or more
  zeros up to the end of the string; it is removed.
\<close>

definition strip_dot_zeros :: "string \<Rightarrow> string" where
  "strip_dot_zeros s =
     (let r = dropWhile (\<lambda>c. c = CHR ''0'') (rev s)
      in if length r < length s \<and> r \<noteq> [] \<and> hd r = CHR ''.'' then rev (tl r) else s)"

text \<open>\<open>s.replace(/[^0-9.-]+/g, "")\<close>, \<open>s.replace(/[^0-9]/g, "")\<close> and \<open>s.replace(/[^a-z0-9]/g, '')\<close>.\<close>

definition keep_amount_chars :: "string \<Rightarrow> string" where
  "keep_amount_chars s = filter (\<lambda>c. is_digit c \<or> c = CHR ''.'' \<or> c = CHR ''-'') s"

definition keep_digits :: "string \<Rightarrow> string" where
  "keep_digits s = filter is_digit s"

definition keep_alnum :: "string \<Rightarrow> string" where
  "keep_alnum s = filter (\<lambda>c. is_lower_az c \<or> is_digit c) s"

section \<open>JavaScript numbers\<close>

text \<open>
  A number is \<open>NaN\<close>, an infinity (\<open>Inf True\<close> is \<open>+Infinity\<close>) or a finite binary64
  value, held as the rational it denotes. The sign of zero is not kept: no operation used
  by the modelled functions tells \<open>-0\<close> from \<open>0\<close>. Every arithmetic result is rounded to
  the nearest binary64 value, ties to the even significand, by \<open>to_double\<close>.
\<close>

datatype jsnum = NaN | Inf bool | Fin rat

text \<open>The number of binary and of decimal digits of a positive integer.\<close>

function bit_length :: "int \<Rightarrow> nat" where
  "bit_length n = (if n \<le> 0 then 0 else Suc (bit_length (n div 2)))"
  by pat_completeness auto
termination
  by (relation "measure nat") auto

declare bit_length.simps [simp del]

function dec_length :: "int \<Rightarrow> nat" where
  "dec_length n = (if n \<le> 0 then 0 else Suc (dec_length (n div 10)))"
  by pat_completeness auto
termination
  by (relation "measure nat") auto

declare dec_length.simps [simp del]

definition pow2 :: "int \<Rightarrow> rat" where
  "pow2 e = (if 0 \<le> e then 2 ^ nat e else 1 / 2 ^ nat (- e))"

definition pow10 :: "int \<Rightarrow> rat" where
  "pow10 e = (if 0 \<le> e then 10 ^ nat e else 1 / 10 ^ nat (- e))"

text \<open>For \<open>q > 0\<close>: the \<open>e\<close> with \<open>2^e \<le> q < 2^(e+1)\<close>.\<close>

definition binade :: "rat \<Rightarrow> int" where
  "binade q =
     (let (a, b) = quotient_of q;
          e = int (bit_length a) - int (bit_length b)
      in if pow2 e \<le> q then e else e - 1)"

text \<open>For \<open>q > 0\<close>: the \<open>n\<close> with \<open>10^(n-1) \<le> q < 10^n\<close>.\<close>

definition decade :: "rat \<Rightarrow> int" where
  "decade q =
     (let (a, b) = quotient_of q;
          n = int (dec_length a) - int (dec_length b)
      in if pow10 n \<le> q then n + 1 else n)"

definition round_half_even :: "rat \<Rightarrow> int" where
  "round_half_even r =
     (let f = \<lfloor>r\<rfloor>; d = r - of_int f
      in if d < 1 / 2 then f else if 1 / 2 < d then f + 1 else if even f then f else f + 1)"

text \<open>
  \<open>to_double q\<close>: with \<open>e\<close> the binade of \<open>\<bar>q\<bar>\<close> (at least \<open>-1022\<close>, below which the values
  are subnormal), the significand \<open>m\<close> is \<open>\<bar>q\<bar> / 2^(e-52)\<close> rounded to an integer; the
  result overflows to an infinity when it reaches \<open>2^1024\<close>.
\<close>

definition to_double :: "rat \<Rightarrow> jsnum" where
  "to_double q =
     (if q = 0 then Fin 0
      else let e = binade \<bar>q\<bar>
           in if 1024 \<le> e then Inf (0 < q)
              else let u = pow2 (max e (- 1022) - 52);
                       m = round_half_even (\<bar>q\<bar> / u)
                   in if e = 1023 \<and> m = 2 ^ 53 then Inf (0 < q)
                      else Fin (if 0 < q then of_int m * u else - (of_int m * u)))"

definition isNaN :: "jsnum \<Rightarrow> bool" where
  "isNaN x = (x = NaN)"

fun num_sub :: "jsnum \<Rightarrow> jsnum \<Rightarrow> jsnum" where
  "num_sub (Fin a) (Fin b) = to_double (a - b)"
| "num_sub (Fin a) (Inf t) = Inf (\<not> t)"
| "num_sub (Inf s) (Fin b) = Inf s"
| "num_sub (Inf s) (Inf t) = (if s = t then NaN else Inf s)"
| "num_sub NaN y = NaN"
| "num_sub x NaN = NaN"

fun num_mul :: "jsnum \<Rightarrow> jsnum \<Rightarrow> jsnum" where
  "num_mul (Fin a) (Fin b) = to_double (a * b)"
| "num_mul (Fin a) (Inf t) = (if a = 0 then NaN else Inf ((0 < a) = t))"
| "num_mul (Inf s) (Fin b) = (if b = 0 then NaN else Inf (s = (0 < b)))"
| "num_mul (Inf s) (Inf t) = Inf (s = t)"
| "num_mul NaN y = NaN"
| "num_mul x NaN = NaN"

fun num_abs :: "jsnum \<Rightarrow> jsnum" where
  "num_abs (Fin a) = Fin \<bar>a\<bar>"
| "num_abs (Inf s) = Inf True"
| "num_abs NaN = NaN"

text \<open>\<open>x < y\<close>; every comparison with \<open>NaN\<close> is false.\<close>

fun num_less :: "jsnum \<Rightarrow> jsnum \<Rightarrow> bool" where
  "num_less (Fin a) (Fin b) = (a < b)"
| "num_less (Fin a) (Inf t) = t"
| "num_less (Inf s) (Fin b) = (\<not> s)"
| "num_less (Inf s) (Inf t) = (\<not> s \<and> t)"
| "num_less NaN y = False"
| "num_less x NaN = False"

text \<open>\<open>Math.round\<close>: the nearest integer, a half rounding up.\<close>

fun math_round :: "jsnum \<Rightarrow> jsnum" where
  "math_round (Fin a) = Fin (of_int \<lfloor>a + 1 / 2\<rfloor>)"
| "math_round x = x"

subsection \<open>Strings to numbers\<close>

definition digit_of :: "char \<Rightarrow> int" where
  "digit_of c = of_char c - 48"

definition digits_value :: "string \<Rightarrow> int" where
  "digits_value ds = foldl (\<lambda>n c. 10 * n + digit_of c) 0 ds"

text \<open>
  The longest prefix of \<open>s\<close> that is a decimal literal (an optional minus sign, digits, an
  optional dot and digits, with a digit on at least one side of the dot), as its value and
  the rest of \<open>s\<close>. This is the grammar of \<open>Number\<close> and \<open>parseFloat\<close> on the strings
  they are given here, which hold digits, dots and minus signs only: the callers strip
  every other character first, or test the string against \<open>/^\d{5}(\.\d+)?$/\<close>.
\<close>

definition scan_decimal :: "string \<Rightarrow> (rat \<times> string) option" where
  "scan_decimal s =
     (let neg = (s \<noteq> [] \<and> hd s = CHR ''-'');
          s1 = (if neg then tl s else s);
          ip = takeWhile is_digit s1;
          s2 = dropWhile is_digit s1;
          dot = (s2 \<noteq> [] \<and> hd s2 = CHR ''.'');
          fp = (if dot then takeWhile is_digit (tl s2) else []);
          s3 = (if dot then dropWhile is_digit (tl s2) else s2)
      in if ip = [] \<and> fp = [] then None
         else Some ((if neg then - 1 else 1) * of_int (digits_value (ip @ fp)) / 10 ^ length fp, s3))"

text \<open>\<open>Number(s)\<close>: the empty string is \<open>0\<close>; otherwise all of \<open>s\<close> must be a literal.\<close>

definition js_Number :: "string \<Rightarrow> jsnum" where
  "js_Number s =
     (if s = [] then Fin 0
      else case scan_decimal s of
             Some (q, r) \<Rightarrow> if r = [] then to_double q else NaN
           | None \<Rightarrow> NaN)"

text \<open>\<open>parseFloat(s)\<close>: the value of the longest literal prefix, \<open>NaN\<close> when there is none.\<close>

definition js_parseFloat :: "string \<Rightarrow> jsnum" where
  "js_parseFloat s = (case scan_decimal s of Some (q, r) \<Rightarrow> to_double q | None \<Rightarrow> NaN)"

subsection \<open>Numbers to strings\<close>

function dec_digits :: "int \<Rightarrow> string" where
  "dec_digits n =
     (if n < 10 then [''0123456789'' ! nat n]
      else dec_digits (n div 10) @ [''0123456789'' ! nat (n mod 10)])"
  by pat_completeness auto
termination
  by (relation "measure nat") auto

declare dec_digits.simps [simp del]

text \<open>
  \<open>Number::toString\<close> writes a finite \<open>q > 0\<close> with the fewest digits \<open>k\<close> for which some
  \<open>s\<close> of \<open>k\<close> digits has \<open>s * 10^(n-k)\<close> round to \<open>q\<close>; of two such \<open>s\<close> the one nearer to
  \<open>q\<close>. \<open>candidate q n0 k\<close> looks at the two \<open>k\<close>-digit decimals around \<open>q\<close>.
\<close>

definition candidate :: "rat \<Rightarrow> int \<Rightarrow> nat \<Rightarrow> (int \<times> int) option" where
  "candidate q n0 k =
     (let sc = pow10 (n0 - int k);
          lo = \<lfloor>q / sc\<rfloor>;
          hi = lo + 1;
          oklo = (to_double (of_int lo * sc) = Fin q);
          okhi = (to_double (of_int hi * sc) = Fin q);
          dlo = q - of_int lo * sc;
          dhi = of_int hi * sc - q;
          norm = (\<lambda>s. if s = 10 ^ k then (10 ^ (k - 1), n0 + 1) else (s, n0))
      in if oklo \<and> okhi then
           Some (norm (if dlo < dhi then lo else if dhi < dlo then hi
                       else if even lo then lo else hi))
         else if oklo then Some (norm lo)
         else if okhi then Some (norm hi)
         else None)"

fun shortest :: "rat \<Rightarrow> int \<Rightarrow> nat \<Rightarrow> nat \<Rightarrow> int \<times> int" where
  "shortest q n0 0 k = (\<lfloor>q / pow10 (n0 - int k)\<rfloor>, n0)"
| "shortest q n0 (Suc fuel) k =
     (case candidate q n0 k of
        Some r \<Rightarrow> r
      | None \<Rightarrow> shortest q n0 fuel (Suc k))"

definition format_digits :: "string \<Rightarrow> int \<Rightarrow> string" where
  "format_digits ds n =
     (let k = int (length ds)
      in if k \<le> n \<and> n \<le> 21 then ds @ replicate (nat (n - k)) CHR ''0''
         else if 0 < n \<and> n \<le> 21 then take (nat n) ds @ ''.'' @ drop (nat n) ds
         else if - 6 < n \<and> n \<le> 0 then ''0.'' @ replicate (nat (- n)) CHR ''0'' @ ds
         else let es = (if n - 1 < 0 then ''-'' else ''+'') @ dec_digits \<bar>n - 1\<bar>
              in if k = 1 then ds @ ''e'' @ es
                 else take 1 ds @ ''.'' @ drop 1 ds @ ''e'' @ es)"

fun number_toString :: "jsnum \<Rightarrow> string" where
  "number_toString NaN = ''NaN''"
| "number_toString (Inf s) = (if s then ''Infinity'' else ''-Infinity'')"
| "number_toString (Fin q) =
     (if q = 0 then ''0''
      else let (s, n) = shortest \<bar>q\<bar> (decade \<bar>q\<bar>) 17 1
           in (if q < 0 then ''-'' else []) @ format_digits (dec_digits s) n)"

section \<open>Values, rows and records (types)\<close>

text \<open>
  A value of type \<open>any\<close>, as a cell of a decoded row holds it: absent (\<open>undefined\<close> or
  \<open>null\<close>), a string or a number.
\<close>

datatype jsval = JUndefined | JNull | JStr string | JNum jsnum

text \<open>\<open>String(v)\<close>.\<close>

fun js_String :: "jsval \<Rightarrow> string" where
  "js_String JUndefined = ''undefined''"
| "js_String JNull = ''null''"
| "js_String (JStr s) = s"
| "js_String (JNum x) = number_toString x"

text \<open>\<open>!v\<close>: the values that count as false are the absent ones, the empty string, zero and \<open>NaN\<close>.\<close>

fun falsy :: "jsval \<Rightarrow> bool" where
  "falsy JUndefined = True"
| "falsy JNull = True"
| "falsy (JStr s) = (s = [])"
| "falsy (JNum x) = (x = Fin 0 \<or> x = NaN)"

text \<open>
  A \<open>RawRow\<close> is an object with string keys. It is held as the list of its own properties
  in the order of \<open>Object.keys\<close>; \<open>row[k]\<close> is \<open>undefined\<close> for a key the row does not have.
\<close>

type_synonym RawRow = "(string \<times> jsval) list"

definition object_keys :: "RawRow \<Rightarrow> string list" where
  "object_keys row = map fst row"

definition row_get :: "RawRow \<Rightarrow> string \<Rightarrow> jsval" where
  "row_get row k = (case map_of row k of Some v \<Rightarrow> v | None \<Rightarrow> JUndefined)"

datatype match_status = MATCH | NO_MATCH | NOT_APPLICABLE

text \<open>
  \<open>NOT_APPLICABLE\<close> is the string \<open>'N/A'\<close> of the source. An optional property
  (\<open>name?: T\<close>) is a \<open>T option\<close>, \<open>None\<close> when the object does not have it.
\<close>

record OpayoRow =
  amount :: jsnum
  last4 :: string
  reference :: string
  bookingAddress :: string
  transAddress :: string

record PenairRow =
  inetRef :: string
  folderNumber :: string
  travelDate :: string
  origin :: string
  destination :: string
  airlineCode :: string
  invoiceDate :: string
  returnDate :: string
  emailId :: string

record DisputeRecord =
  cycle :: string
  merchant :: string
  dueDate :: string
  caseReference :: string
  reasonCode :: string
  reasonCategory :: string
  transactionDate :: string
  transactionAmount :: jsval
  datePost :: "string option"
  disputeAmount :: "jsval option"
  cardLast4 :: string
  opayoMatch :: match_status
  opayoReference :: "string option"
  bookingAddress :: "string option"
  transAddress :: "string option"
  penairMatch :: "match_status option"
  folderNumber :: "string option"
  travelDate :: "string option"
  origin :: "string option"
  destination :: "string option"
  airlineCode :: "string option"
  invoiceDate :: "string option"
  returnDate :: "string option"
  emailId :: "string option"
  originalRow :: "RawRow option"
  importDate :: "string option"
  sourceReport :: "string option"
  ts :: "jsnum option"

section \<open>Delta detection (comparator, findAnomalies)\<close>

text \<open>
  The loop over \<open>newData\<close>, with the array \<open>anomalies\<close> it pushes to as an accumulator.
  \<open>existingRefs\<close> is the \<open>Set\<close> built from the base data.
\<close>

fun findAnomalies_loop :: "string set \<Rightarrow> DisputeRecord list \<Rightarrow> DisputeRecord list \<Rightarrow> DisputeRecord list" where
  "findAnomalies_loop existingRefs anomalies [] = anomalies"
| "findAnomalies_loop existingRefs anomalies (record # newData) =
     (let ref = trim (caseReference record)
      in if ref = [] \<or> ref = ''N/A'' then findAnomalies_loop existingRefs anomalies newData
         else if ref \<notin> existingRefs then findAnomalies_loop existingRefs (anomalies @ [record]) newData
         else findAnomalies_loop existingRefs anomalies newData)"

definition findAnomalies :: "DisputeRecord list \<Rightarrow> DisputeRecord list \<Rightarrow> DisputeRecord list" where
  "findAnomalies baseData newData =
     (let existingRefs = set (map (\<lambda>r. trim (caseReference r)) baseData)
      in findAnomalies_loop existingRefs [] newData)"

section \<open>Array helpers\<close>

text \<open>
  \<open>xs.find(p)\<close> walks the array from index 0 and returns the first element that satisfies
  \<open>p\<close>, or \<open>undefined\<close> (\<open>None\<close>). \<open>xs.findIndex(p)\<close> and \<open>xs.indexOf(x)\<close> return the first
  index, or \<open>-1\<close>.
\<close>

fun array_find :: "('a \<Rightarrow> bool) \<Rightarrow> 'a list \<Rightarrow> 'a option" where
  "array_find p [] = None"
| "array_find p (x # xs) = (if p x then Some x else array_find p xs)"

fun findIndex_from :: "int \<Rightarrow> ('a \<Rightarrow> bool) \<Rightarrow> 'a list \<Rightarrow> int" where
  "findIndex_from i p [] = - 1"
| "findIndex_from i p (x # xs) = (if p x then i else findIndex_from (i + 1) p xs)"

definition findIndex :: "('a \<Rightarrow> bool) \<Rightarrow> 'a list \<Rightarrow> int" where
  "findIndex p xs = findIndex_from 0 p xs"

definition indexOf :: "'a list \<Rightarrow> 'a \<Rightarrow> int" where
  "indexOf xs x = findIndex (\<lambda>y. y = x) xs"

section \<open>Identifier cleaning (comparator, cleanId)\<close>

definition cleanId :: "jsval \<Rightarrow> string" where
  "cleanId val =
     (if val = JNull \<or> val = JUndefined then []
      else toLowerCase (strip_dot_zeros (trim (js_String val))))"

section \<open>Stage A: capture linkage (comparator, crossReferenceOpayo)\<close>

text \<open>The two prepared values \<open>recAmt\<close> and \<open>recLast4\<close> of a record.\<close>

definition recAmt :: "DisputeRecord \<Rightarrow> jsnum" where
  "recAmt record = js_Number (keep_amount_chars (js_String (transactionAmount record)))"

definition recLast4 :: "DisputeRecord \<Rightarrow> string" where
  "recLast4 record = trim (js_String (JStr (cardLast4 record)))"

text \<open>The literal \<open>0.05\<close>.\<close>

definition lit_0_05 :: jsnum where
  "lit_0_05 = to_double (5 / 100)"

text \<open>The callback given to \<open>opayoData.find\<close>.\<close>

definition opayo_pred :: "DisputeRecord \<Rightarrow> OpayoRow \<Rightarrow> bool" where
  "opayo_pred record op =
     (let amtDiff = num_abs (num_sub (amount op) (recAmt record));
          last4Match = (last4 op = recLast4 record)
      in last4Match \<and> num_less amtDiff lit_0_05)"

text \<open>The callback given to \<open>anomalies.map\<close>; the object spread is a record update.\<close>

definition crossReferenceOpayo_record :: "OpayoRow list \<Rightarrow> DisputeRecord \<Rightarrow> DisputeRecord" where
  "crossReferenceOpayo_record opayoData record =
     (if isNaN (recAmt record) \<or> length (recLast4 record) < 4 \<or> recLast4 record = ''N/A''
      then record\<lparr>opayoMatch := NOT_APPLICABLE\<rparr>
      else case array_find (opayo_pred record) opayoData of
             Some matchRecord \<Rightarrow>
               record\<lparr>opayoMatch := MATCH,
                      opayoReference := Some (reference matchRecord),
                      bookingAddress := Some (OpayoRow.bookingAddress matchRecord),
                      transAddress := Some (OpayoRow.transAddress matchRecord)\<rparr>
           | None \<Rightarrow> record\<lparr>opayoMatch := NO_MATCH\<rparr>)"

definition crossReferenceOpayo :: "DisputeRecord list \<Rightarrow> OpayoRow list \<Rightarrow> DisputeRecord list" where
  "crossReferenceOpayo anomalies opayoData = map (crossReferenceOpayo_record opayoData) anomalies"

section \<open>Stage B: booking linkage (comparator, crossReferencePenair)\<close>

text \<open>
  \<open>!record.opayoReference\<close>: the property is absent or the empty string. \<open>opt_val\<close> is the
  value read from an optional string property.
\<close>

fun not_opt :: "string option \<Rightarrow> bool" where
  "not_opt None = True"
| "not_opt (Some s) = (s = [])"

fun opt_val :: "string option \<Rightarrow> jsval" where
  "opt_val None = JUndefined"
| "opt_val (Some s) = JStr s"

definition penair_pred :: "DisputeRecord \<Rightarrow> PenairRow \<Rightarrow> bool" where
  "penair_pred record p =
     (let opRef = cleanId (opt_val (opayoReference record))
      in cleanId (JStr (inetRef p)) = opRef)"

definition crossReferencePenair_record :: "PenairRow list \<Rightarrow> DisputeRecord \<Rightarrow> DisputeRecord" where
  "crossReferencePenair_record penairData record =
     (if opayoMatch record \<noteq> MATCH \<or> not_opt (opayoReference record)
      then record\<lparr>penairMatch := Some NOT_APPLICABLE\<rparr>
      else case array_find (penair_pred record) penairData of
             Some matchRecord \<Rightarrow>
               record\<lparr>penairMatch := Some MATCH,
                      folderNumber := Some (PenairRow.folderNumber matchRecord),
                      travelDate := Some (PenairRow.travelDate matchRecord),
                      origin := Some (PenairRow.origin matchRecord),
                      destination := Some (PenairRow.destination matchRecord),
                      airlineCode := Some (PenairRow.airlineCode matchRecord),
                      invoiceDate := Some (PenairRow.invoiceDate matchRecord),
                      returnDate := Some (PenairRow.returnDate matchRecord),
                      emailId := Some (PenairRow.emailId matchRecord)\<rparr>
           | None \<Rightarrow> record\<lparr>penairMatch := Some NO_MATCH\<rparr>)"

definition crossReferencePenair :: "DisputeRecord list \<Rightarrow> PenairRow list \<Rightarrow> DisputeRecord list" where
  "crossReferencePenair anomalies penairData = map (crossReferencePenair_record penairData) anomalies"

section \<open>Header mapping (excel, findKey)\<close>

text \<open>\<open>k.trim().toLowerCase().replace(/[^a-z0-9]/g, '')\<close>.\<close>

definition normalize_key :: "string \<Rightarrow> string" where
  "normalize_key k = keep_alnum (toLowerCase (trim k))"

text \<open>
  The first loop over \<open>possibleKeys\<close>: for each target the exact match, then the normalized
  match. \<open>keys[i]\<close> is read at an index that \<open>findIndex\<close> or \<open>indexOf\<close> returned.
\<close>

fun findKey_loop1 :: "string list \<Rightarrow> string list \<Rightarrow> string list \<Rightarrow> string option" where
  "findKey_loop1 keys normalizedKeys [] = None"
| "findKey_loop1 keys normalizedKeys (target # possibleKeys) =
     (let normalizedTarget = normalize_key target;
          exactIndex = findIndex (\<lambda>k. toLowerCase (trim k) = toLowerCase (trim target)) keys
      in if exactIndex \<noteq> - 1 then Some (keys ! nat exactIndex)
         else let index = indexOf normalizedKeys normalizedTarget
              in if index \<noteq> - 1 then Some (keys ! nat index)
                 else findKey_loop1 keys normalizedKeys possibleKeys)"

text \<open>The second loop: the partial match.\<close>

fun findKey_loop2 :: "string list \<Rightarrow> string list \<Rightarrow> string list \<Rightarrow> string option" where
  "findKey_loop2 keys normalizedKeys [] = None"
| "findKey_loop2 keys normalizedKeys (target # possibleKeys) =
     (let normalizedTarget = normalize_key target;
          index = findIndex (\<lambda>k. str_includes k normalizedTarget) normalizedKeys
      in if index \<noteq> - 1 then Some (keys ! nat index)
         else findKey_loop2 keys normalizedKeys possibleKeys)"

definition findKey :: "RawRow \<Rightarrow> string list \<Rightarrow> string option" where
  "findKey row possibleKeys =
     (let keys = object_keys row;
          normalizedKeys = map normalize_key keys
      in case findKey_loop1 keys normalizedKeys possibleKeys of
           Some k \<Rightarrow> Some k
         | None \<Rightarrow> findKey_loop2 keys normalizedKeys possibleKeys)"

section \<open>Serial dates (excel, formatExcelDate)\<close>

text \<open>\<open>/^\d{5}(\.\d+)?$/.test(str)\<close>: five digits, then nothing or a dot and one or more digits.\<close>

definition is_serial_pattern :: "string \<Rightarrow> bool" where
  "is_serial_pattern str =
     (let d = take 5 str; r = drop 5 str
      in length d = 5 \<and> list_all is_digit d
         \<and> (r = [] \<or> (hd r = CHR ''.'' \<and> tl r \<noteq> [] \<and> list_all is_digit (tl r))))"

text \<open>
  \<open>new Date(ms).toLocaleDateString()\<close> depends on the locale and the time zone of the
  host; it is the parameter \<open>toLocaleDateString\<close>, given the time value \<open>ms\<close>.
\<close>

definition formatExcelDate :: "(jsnum \<Rightarrow> string) \<Rightarrow> jsval \<Rightarrow> string" where
  "formatExcelDate toLocaleDateString val =
     (if falsy val \<or> val = JStr ''N/A'' then ''N/A''
      else let str = trim (js_String val)
           in if is_serial_pattern str then
                let num = js_parseFloat str
                in if num_less (Fin 29000) num \<and> num_less num (Fin 60000)
                   then toLocaleDateString
                          (math_round (num_mul (num_mul (num_sub num (Fin 25569)) (Fin 86400)) (Fin 1000)))
                   else str
              else str)"

section \<open>Capture rows (excel, parseOpayoData)\<close>

text \<open>\<open>v || ''\<close>.\<close>

definition or_empty :: "jsval \<Rightarrow> jsval" where
  "or_empty v = (if falsy v then JStr [] else v)"

definition opayo_amount_keys :: "string list" where
  "opayo_amount_keys = [''Amount(Inc. Surcharge)'', ''Amount (Inc. Surcharge)'', ''Amount'']"

definition opayo_last4_keys :: "string list" where
  "opayo_last4_keys = [''last 4 digits'', ''last 4'', ''card last 4'']"

definition opayo_reference_keys :: "string list" where
  "opayo_reference_keys = [''Reference'', ''Ref'', ''Transaction ID'', ''Txn Ref'']"

definition opayo_bookingAddress_keys :: "string list" where
  "opayo_bookingAddress_keys = [''Booking Address'', ''Billing Address'']"

definition opayo_transAddress_keys :: "string list" where
  "opayo_transAddress_keys = [''Transaction Address'', ''Delivery Address'']"

text \<open>
  The callback given to \<open>rows.map\<close>, for the resolved keys of the five columns. A key
  that \<open>findKey\<close> returned counts as missing (\<open>!k\<close>, or the else branch of \<open>k ? a : b\<close>)
  when it is \<open>undefined\<close> or the empty string.
\<close>

definition parseOpayoRow ::
  "string \<Rightarrow> string \<Rightarrow> string option \<Rightarrow> string option \<Rightarrow> string option \<Rightarrow> RawRow \<Rightarrow> OpayoRow" where
  "parseOpayoRow k_amount k_last4 m_reference m_bookingAddress m_transAddress row =
     (let amtStr = keep_amount_chars (js_String (row_get row k_amount));
          amt = js_parseFloat amtStr;
          l4 = slice_last4 (keep_digits (js_String (row_get row k_last4)));
          rawRef = (case m_reference of
                      Some k \<Rightarrow> if k \<noteq> [] then row_get row k else JStr []
                    | None \<Rightarrow> JStr []);
          ref = (if rawRef \<noteq> JUndefined \<and> rawRef \<noteq> JNull then trim (js_String rawRef) else [])
      in \<lparr>amount = (if isNaN amt then Fin 0 else amt),
          last4 = l4,
          reference = ref,
          OpayoRow.bookingAddress =
            (case m_bookingAddress of
               Some k \<Rightarrow> if k \<noteq> [] then js_String (or_empty (row_get row k)) else []
             | None \<Rightarrow> []),
          OpayoRow.transAddress =
            (case m_transAddress of
               Some k \<Rightarrow> if k \<noteq> [] then js_String (or_empty (row_get row k)) else []
             | None \<Rightarrow> [])\<rparr>)"

definition parseOpayoData :: "RawRow list \<Rightarrow> OpayoRow list" where
  "parseOpayoData rows =
     (case rows of
        [] \<Rightarrow> []
      | sample # rest \<Rightarrow>
          let m_amount = findKey sample opayo_amount_keys;
              m_last4 = findKey sample opayo_last4_keys;
              m_reference = findKey sample opayo_reference_keys;
              m_bookingAddress = findKey sample opayo_bookingAddress_keys;
              m_transAddress = findKey sample opayo_transAddress_keys
          in case (m_amount, m_last4) of
               (Some k_amount, Some k_last4) \<Rightarrow>
                 if k_amount = [] \<or> k_last4 = [] then []
                 else filter (\<lambda>r. amount r \<noteq> Fin 0 \<and> length (last4 r) = 4)
                        (map (parseOpayoRow k_amount k_last4
                                m_reference m_bookingAddress m_transAddress) rows)
             | _ \<Rightarrow> [])"

section \<open>Notions used to state the properties\<close>

text \<open>A string that ends in a white space character.\<close>

definition ends_with_space :: "string \<Rightarrow> bool" where
  "ends_with_space s = (s \<noteq> [] \<and> is_space (last s))"

text \<open>
  A record with the fields that Stage A sets blanked out, and with those that Stage B
  sets blanked out: two records have the same image exactly when they agree on every
  other field.
\<close>

definition stageA_frame :: "DisputeRecord \<Rightarrow> DisputeRecord" where
  "stageA_frame r =
     r\<lparr>opayoMatch := NOT_APPLICABLE, opayoReference := None,
       bookingAddress := None, transAddress := None\<rparr>"

definition stageB_frame :: "DisputeRecord \<Rightarrow> DisputeRecord" where
  "stageB_frame r =
     r\<lparr>penairMatch := None, folderNumber := None, travelDate := None, origin := None,
       destination := None, airlineCode := None, invoiceDate := None, returnDate := None,
       emailId := None\<rparr>"

text \<open>A ledger record, a capture row and a booking row to evaluate the functions on.\<close>

definition sample_record :: DisputeRecord where
  "sample_record =
     \<lparr>cycle = ''7'', merchant = ''ACME TRAVEL'', dueDate = ''12/05/2023'',
      caseReference = ''B2'', reasonCode = ''4837'', reasonCategory = ''Fraud'',
      transactionDate = ''01/05/2023'', transactionAmount = JStr ''$100.00'',
      datePost = None, disputeAmount = None, cardLast4 = ''5678'',
      opayoMatch = NOT_APPLICABLE, opayoReference = None, bookingAddress = None,
      transAddress = None, penairMatch = None, folderNumber = None, travelDate = None,
      origin = None, destination = None, airlineCode = None, invoiceDate = None,
      returnDate = None, emailId = None, originalRow = None, importDate = None,
      sourceReport = None, ts = None\<rparr>"

definition sample_capture :: "rat \<Rightarrow> string \<Rightarrow> OpayoRow" where
  "sample_capture a ref =
     \<lparr>amount = Fin a, last4 = ''5678'', reference = ref,
      OpayoRow.bookingAddress = ''1 High St'', OpayoRow.transAddress = ''2 Low St''\<rparr>"

definition sample_booking :: "string \<Rightarrow> string \<Rightarrow> PenairRow" where
  "sample_booking ref folder =
     \<lparr>inetRef = ref, folderNumber = folder, travelDate = ''01/06/2023'', origin = ''LHR'',
      destination = ''DXB'', airlineCode = ''EK'', invoiceDate = ''02/05/2023'',
      returnDate = ''15/06/2023'', emailId = ''a@b.c''\<rparr>"

text \<open>
  The three tiers of the header mapping, each for one alias against all the headers of
  the row: the first header that equals the alias up to case and surrounding white
  space, the first header with the same normalized form, the first header whose
  normalized form contains that of the alias.
\<close>

definition tier1 :: "string list \<Rightarrow> string \<Rightarrow> string option" where
  "tier1 keys target = List.find (\<lambda>k. toLowerCase (trim k) = toLowerCase (trim target)) keys"

definition tier2 :: "string list \<Rightarrow> string \<Rightarrow> string option" where
  "tier2 keys target = List.find (\<lambda>k. normalize_key k = normalize_key target) keys"

definition tier3 :: "string list \<Rightarrow> string \<Rightarrow> string option" where
  "tier3 keys target =
     List.find (\<lambda>k. str_includes (normalize_key k) (normalize_key target)) keys"

text \<open>The result of the first alias of the list for which \<open>f\<close> has one.\<close>

fun first_hit :: "('a \<Rightarrow> 'b option) \<Rightarrow> 'a list \<Rightarrow> 'b option" where
  "first_hit f [] = None"
| "first_hit f (x # xs) = (case f x of Some y \<Rightarrow> Some y | None \<Rightarrow> first_hit f xs)"

text \<open>
  The header mapping as the specification words it: tier 1 against the entire alias
  list, then tier 2 against the entire alias list, then tier 3.
\<close>

definition findKey_tiered :: "RawRow \<Rightarrow> string list \<Rightarrow> string option" where
  "findKey_tiered row aliases =
     (let keys = object_keys row
      in case first_hit (tier1 keys) aliases of
           Some k \<Rightarrow> Some k
         | None \<Rightarrow>
             (case first_hit (tier2 keys) aliases of
                Some k \<Rightarrow> Some k
              | None \<Rightarrow> first_hit (tier3 keys) aliases))"

text \<open>The aliases of the case reference column (excel, normalizeData) and a header row.\<close>

definition caseReference_keys :: "string list" where
  "caseReference_keys =
     [''case reference'', ''case ref'', ''caseid'', ''reference'', ''case no'', ''case number'']"

definition sample_headers :: RawRow where
  "sample_headers = [(''Reference'', JStr ''R-99''), (''Case Ref.'', JStr ''B2'')]"

text \<open>Decoded capture tables: one whose columns resolve, one without an amount column.\<close>

definition sample_capture_rows :: "RawRow list" where
  "sample_capture_rows =
     [[(''Amount (Inc. Surcharge)'', JStr ''$100.03''), (''Last 4 Digits'', JStr ''xxxx-5678''),
       (''Reference'', JStr '' R-99 '')],
      [(''Amount (Inc. Surcharge)'', JStr []), (''Last 4 Digits'', JStr ''1234''),
       (''Reference'', JStr ''R-100'')],
      [(''Amount (Inc. Surcharge)'', JNum (Fin 12)), (''Last 4 Digits'', JNum (Fin 123)),
       (''Reference'', JStr ''R-101'')]]"

definition unresolved_capture_rows :: "RawRow list" where
  "unresolved_capture_rows =
     [[(''Value'', JStr ''$100.03''), (''Last 4 Digits'', JStr ''5678''),
       (''Reference'', JStr ''R-99'')]]"

section \<open>Properties of the delta detection\<close>

lemma findAnomalies_loop_filter:
  "findAnomalies_loop E acc U =
     acc @ filter (\<lambda>r. trim (caseReference r) \<noteq> [] \<and> trim (caseReference r) \<noteq> ''N/A''
                        \<and> trim (caseReference r) \<notin> E) U"
  by (induction U arbitrary: acc) (simp_all add: Let_def)

text \<open>
  C1. For every baseline list \<open>B\<close> and updated list \<open>U\<close>, \<open>findAnomalies B U\<close> is the
  sublist of \<open>U\<close>, in the order of \<open>U\<close>, of exactly the records whose trimmed case
  reference is neither empty nor \<open>N/A\<close> and is not the trimmed case reference of any
  record of \<open>B\<close>.
\<close>

theorem findAnomalies_exact:
  "findAnomalies B U =
     filter (\<lambda>r. trim (caseReference r) \<noteq> [] \<and> trim (caseReference r) \<noteq> ''N/A''
                  \<and> trim (caseReference r) \<notin> set (map (\<lambda>b. trim (caseReference b)) B)) U"
  by (simp add: findAnomalies_def findAnomalies_loop_filter)

text \<open>
  A baseline with the reference \<open>A1\<close> and an update with \<open>A1\<close>, \<open>B2\<close>, \<open>N/A\<close>, a blank
  reference and \<open>C3\<close>: the anomalies are \<open>B2\<close> and \<open>C3\<close>, in that order.
\<close>

theorem findAnomalies_exact_witness:
  "findAnomalies [sample_record\<lparr>caseReference := '' A1''\<rparr>]
     [sample_record\<lparr>caseReference := ''A1 ''\<rparr>, sample_record\<lparr>caseReference := ''B2''\<rparr>,
      sample_record\<lparr>caseReference := ''N/A''\<rparr>, sample_record\<lparr>caseReference := ''  ''\<rparr>,
      sample_record\<lparr>caseReference := ''C3''\<rparr>] =
   [sample_record\<lparr>caseReference := ''B2''\<rparr>, sample_record\<lparr>caseReference := ''C3''\<rparr>]"
  using findAnomalies_exact [of "[sample_record\<lparr>caseReference := '' A1''\<rparr>]"
     "[sample_record\<lparr>caseReference := ''A1 ''\<rparr>, sample_record\<lparr>caseReference := ''B2''\<rparr>,
      sample_record\<lparr>caseReference := ''N/A''\<rparr>, sample_record\<lparr>caseReference := ''  ''\<rparr>,
      sample_record\<lparr>caseReference := ''C3''\<rparr>]"]
  by (simp add: trim_def is_space_def)

section \<open>Properties of the string operations\<close>

lemma of_char_int_range: "0 \<le> (of_char c :: int) \<and> (of_char c :: int) < 256"
proof -
  have "(of_char c :: int) = int (of_char c)" by (simp add: of_nat_of_char)
  moreover have "(of_char c :: nat) < 256" by simp
  ultimately show ?thesis by linarith
qed

lemma of_char_lower_char:
  "(of_char (lower_char c) :: int) =
     (if (65 \<le> (of_char c :: int) \<and> (of_char c :: int) \<le> 90)
         \<or> (192 \<le> (of_char c :: int) \<and> (of_char c :: int) \<le> 222 \<and> (of_char c :: int) \<noteq> 215)
      then of_char c + 32 else of_char c)"
  using of_char_int_range [of c] by (auto simp: lower_char_def Let_def)

lemma lower_char_idem: "lower_char (lower_char c) = lower_char c"
proof -
  have "(of_char (lower_char (lower_char c)) :: int) = of_char (lower_char c)"
    by (simp add: of_char_lower_char [of "lower_char c"]) (auto simp: of_char_lower_char [of c])
  then show ?thesis by simp
qed

lemma is_space_lower_char: "is_space (lower_char c) = is_space c"
  unfolding is_space_def by (auto simp: of_char_lower_char)

lemma rev_dropWhile_rev_take: "\<exists>n. rev (dropWhile P (rev t)) = take n t"
proof -
  have "dropWhile P (rev t) = drop (length (takeWhile P (rev t))) (rev t)"
    by (rule dropWhile_eq_drop)
  then have "rev (dropWhile P (rev t)) = take (length t - length (takeWhile P (rev t))) t"
    by (simp add: rev_drop)
  then show ?thesis ..
qed

lemma take_shorter: "take n s \<noteq> s \<Longrightarrow> length (take n s) < length s"
  by (cases "n < length s") simp_all

lemma length_dropWhile_rev_le: "length (dropWhile P (rev t)) \<le> length t"
  using length_dropWhile_le [of P "rev t"] by simp

lemma dropWhile_shorter: "s \<noteq> [] \<Longrightarrow> P (hd s) \<Longrightarrow> length (dropWhile P s) < length s"
  by (cases s) (simp_all add: less_Suc_eq_le length_dropWhile_le)

lemma dropWhile_fixed: "s \<noteq> [] \<Longrightarrow> \<not> P (hd s) \<Longrightarrow> dropWhile P s = s"
  by (cases s) simp_all

lemma trim_take: "\<exists>n. trim s = take n (dropWhile is_space s)"
  unfolding trim_def by (rule rev_dropWhile_rev_take)

lemma trim_hd_not_space:
  assumes "trim s \<noteq> []"
  shows "\<not> is_space (hd (trim s))"
proof -
  let ?t = "dropWhile is_space s"
  obtain n where n: "trim s = take n ?t" using trim_take by blast
  with assms have "?t \<noteq> []" and "0 < n" by (cases "?t = []", simp, simp, cases n, simp, simp)
  then have "\<not> is_space (hd ?t)" and "hd (take n ?t) = hd ?t"
    by (simp_all add: hd_dropWhile)
  with n show ?thesis by simp
qed

lemma trim_fixed:
  assumes "s \<noteq> []" "\<not> is_space (hd s)" "\<not> is_space (last s)"
  shows "trim s = s"
proof -
  from assms have a: "dropWhile is_space s = s" by (simp add: dropWhile_fixed)
  from assms have "rev s \<noteq> []" "\<not> is_space (hd (rev s))" by (simp_all add: hd_rev)
  then have "dropWhile is_space (rev s) = rev s" by (rule dropWhile_fixed)
  with a show ?thesis by (simp add: trim_def)
qed

lemma trim_shorter:
  assumes "s \<noteq> []" "is_space (last s)"
  shows "length (trim s) < length s"
proof (cases "is_space (hd s)")
  case True
  with assms have "length (dropWhile is_space s) < length s" by (simp add: dropWhile_shorter)
  moreover have "length (trim s) \<le> length (dropWhile is_space s)"
    unfolding trim_def length_rev by (rule length_dropWhile_rev_le)
  ultimately show ?thesis by linarith
next
  case False
  with assms have a: "dropWhile is_space s = s" by (simp add: dropWhile_fixed)
  from assms have "rev s \<noteq> []" "is_space (hd (rev s))" by (simp_all add: hd_rev)
  then have "length (dropWhile is_space (rev s)) < length (rev s)" by (rule dropWhile_shorter)
  with a show ?thesis by (simp add: trim_def)
qed

lemma strip_dot_zeros_take: "\<exists>n. strip_dot_zeros s = take n s"
proof (cases "strip_dot_zeros s = s")
  case True
  then have "strip_dot_zeros s = take (length s) s" by simp
  then show ?thesis ..
next
  case False
  let ?r = "dropWhile (\<lambda>c. c = CHR ''0'') (rev s)"
  from False have eq: "strip_dot_zeros s = rev (tl ?r)"
    by (simp add: strip_dot_zeros_def Let_def split: if_splits)
  have "tl ?r = drop (Suc (length (takeWhile (\<lambda>c. c = CHR ''0'') (rev s)))) (rev s)"
    by (simp add: dropWhile_eq_drop drop_Suc tl_drop)
  then have "rev (tl ?r) = take (length s - Suc (length (takeWhile (\<lambda>c. c = CHR ''0'') (rev s)))) s"
    by (simp add: rev_drop)
  with eq show ?thesis by auto
qed

lemma strip_dot_zeros_length_le: "length (strip_dot_zeros s) \<le> length s"
proof -
  obtain n where "strip_dot_zeros s = take n s" using strip_dot_zeros_take by blast
  then show ?thesis by simp
qed

lemma strip_dot_zeros_shorter:
  assumes "strip_dot_zeros s \<noteq> s"
  shows "length (strip_dot_zeros s) < length s"
proof -
  obtain n where "strip_dot_zeros s = take n s" using strip_dot_zeros_take by blast
  with assms take_shorter [of n s] show ?thesis by simp
qed

lemma strip_dot_zeros_hd:
  assumes "strip_dot_zeros s \<noteq> []"
  shows "hd (strip_dot_zeros s) = hd s"
proof -
  obtain n where n: "strip_dot_zeros s = take n s" using strip_dot_zeros_take by blast
  with assms have "0 < n" by (cases n) simp_all
  with n show ?thesis by simp
qed

lemma strip_dot_zeros_Nil: "strip_dot_zeros [] = []"
  by (simp add: strip_dot_zeros_def)

lemma toLowerCase_idem: "toLowerCase (toLowerCase s) = toLowerCase s"
  by (simp add: toLowerCase_def lower_char_idem)

section \<open>Properties of the number operations\<close>

text \<open>
  An integer below \<open>2^53\<close> is a binary64 value: rounding leaves it as it is, and so do
  the differences and products of integers that stay below that bound.
\<close>

lemma bit_length_le: "k < 2 ^ n \<Longrightarrow> bit_length k \<le> n"
proof (induction n arbitrary: k)
  case 0
  then show ?case by (subst bit_length.simps) simp
next
  case (Suc n)
  show ?case
  proof (cases "k \<le> 0")
    case True
    then show ?thesis by (subst bit_length.simps) simp
  next
    case False
    from Suc.prems have "k div 2 < 2 ^ n" by simp
    then have "bit_length (k div 2) \<le> n" by (rule Suc.IH)
    with False show ?thesis by (subst bit_length.simps) simp
  qed
qed

lemma bit_length_one: "bit_length 1 = 1"
  by (simp add: bit_length.simps [of 1] bit_length.simps [of 0])

lemma bit_length_pos: "0 < k \<Longrightarrow> 1 \<le> bit_length k"
  by (subst bit_length.simps) simp

lemma binade_of_int_bounds:
  assumes "0 < k" "k < 2 ^ 53"
  shows "- 1 \<le> binade (of_int k) \<and> binade (of_int k) \<le> 52"
proof -
  from assms(1) have "1 \<le> bit_length k" by (rule bit_length_pos)
  moreover from assms(2) have "bit_length k \<le> 53" by (rule bit_length_le)
  ultimately show ?thesis
    by (auto simp: binade_def Let_def bit_length_one)
qed

lemma round_half_even_of_int: "round_half_even (of_int j) = j"
  by (simp add: round_half_even_def)

lemma to_double_of_nat_exact:
  assumes "0 < k" "k < 2 ^ 53"
  shows "to_double (of_int k) = Fin (of_int k)"
proof -
  let ?e = "binade (of_int k)"
  from assms have e: "- 1 \<le> ?e" "?e \<le> 52" using binade_of_int_bounds by simp_all
  define d where "d = nat (52 - ?e)"
  from e have u: "pow2 (max ?e (- 1022) - 52) = 1 / 2 ^ d"
    by (auto simp: pow2_def d_def max_def)
  have a: "\<bar>of_int k :: rat\<bar> = of_int k" using assms by simp
  have q: "(of_int k :: rat) / (1 / 2 ^ d) = of_int (k * 2 ^ d)"
    by simp
  have m: "round_half_even ((of_int k :: rat) / (1 / 2 ^ d)) = k * 2 ^ d"
    unfolding q by (rule round_half_even_of_int)
  from assms e show ?thesis
    unfolding to_double_def Let_def a u m by simp
qed

lemma math_round_of_int: "math_round (Fin (of_int j)) = Fin (of_int j)"
proof -
  have "\<lfloor>(of_int j :: rat) + 1 / 2\<rfloor> = j" by linarith
  then show ?thesis by simp
qed

lemma num_sub_int:
  assumes "0 < a - b" "a - b < 2 ^ 53"
  shows "num_sub (Fin (of_int a)) (Fin (of_int b)) = Fin (of_int (a - b))"
proof -
  have "num_sub (Fin (of_int a)) (Fin (of_int b)) = to_double (of_int (a - b))"
    by (simp only: num_sub.simps of_int_diff)
  with assms show ?thesis by (simp only: to_double_of_nat_exact)
qed

lemma num_mul_int:
  assumes "0 < a * b" "a * b < 2 ^ 53"
  shows "num_mul (Fin (of_int a)) (Fin (of_int b)) = Fin (of_int (a * b))"
proof -
  have "num_mul (Fin (of_int a)) (Fin (of_int b)) = to_double (of_int (a * b))"
    by (simp only: num_mul.simps of_int_mult)
  with assms show ?thesis by (simp only: to_double_of_nat_exact)
qed

lemma serial_time_value:
  assumes "29000 < n" "n < 60000"
  shows "math_round (num_mul (num_mul (num_sub (Fin (of_int n)) (Fin 25569)) (Fin 86400)) (Fin 1000))
         = Fin (of_int ((n - 25569) * 86400 * 1000))"
proof -
  have a: "num_sub (Fin (of_int n)) (Fin 25569) = Fin (of_int (n - 25569))"
  proof -
    have "num_sub (Fin (of_int n)) (Fin (of_int 25569)) = Fin (of_int (n - 25569))"
      using assms by (intro num_sub_int) simp_all
    then show ?thesis by simp
  qed
  have b: "num_mul (Fin (of_int (n - 25569))) (Fin 86400) = Fin (of_int ((n - 25569) * 86400))"
  proof -
    have "num_mul (Fin (of_int (n - 25569))) (Fin (of_int 86400)) = Fin (of_int ((n - 25569) * 86400))"
      using assms by (intro num_mul_int) simp_all
    then show ?thesis by simp
  qed
  have c: "num_mul (Fin (of_int ((n - 25569) * 86400))) (Fin 1000) =
             Fin (of_int ((n - 25569) * 86400 * 1000))"
  proof -
    have "num_mul (Fin (of_int ((n - 25569) * 86400))) (Fin (of_int 1000)) =
             Fin (of_int ((n - 25569) * 86400 * 1000))"
      using assms by (intro num_mul_int) simp_all
    then show ?thesis by simp
  qed
  show ?thesis unfolding a b c by (rule math_round_of_int)
qed

lemma is_digit_not_space: "is_digit c \<Longrightarrow> \<not> is_space c"
  by (auto simp: is_digit_def is_space_def)

lemma scan_decimal_digits:
  assumes "ds \<noteq> []" "list_all is_digit ds"
  shows "scan_decimal ds = Some (of_int (digits_value ds), [])"
proof -
  from assms have "is_digit (hd ds)" by (cases ds) simp_all
  then have h: "hd ds \<noteq> CHR ''-''" by (auto simp: is_digit_def)
  from assms(2) have t: "takeWhile is_digit ds = ds" "dropWhile is_digit ds = []"
    by (simp_all add: list_all_iff)
  from assms(1) h show ?thesis by (simp add: scan_decimal_def Let_def t)
qed

section \<open>Properties of the identifier cleaning\<close>

lemma cleanId_hd_not_space:
  assumes "cleanId x \<noteq> []"
  shows "\<not> is_space (hd (cleanId x))"
proof -
  from assms have ne: "x \<noteq> JNull" "x \<noteq> JUndefined" by (auto simp: cleanId_def)
  let ?s = "trim (js_String x)" and ?t = "strip_dot_zeros (trim (js_String x))"
  from assms ne have t: "?t \<noteq> []" by (simp add: cleanId_def toLowerCase_def)
  then have "hd ?t = hd ?s" by (rule strip_dot_zeros_hd)
  moreover from t have "?s \<noteq> []" using strip_dot_zeros_Nil by auto
  ultimately have "\<not> is_space (hd ?t)" using trim_hd_not_space by simp
  moreover from t ne have "hd (cleanId x) = lower_char (hd ?t)"
    by (simp add: cleanId_def toLowerCase_def hd_map)
  ultimately show ?thesis by (simp add: is_space_lower_char)
qed

lemma cleanId_lower: "toLowerCase (cleanId x) = cleanId x"
  by (simp add: cleanId_def toLowerCase_idem) (simp add: toLowerCase_def)

text \<open>
  C4 (as stated). \<open>cleanId\<close> applied twice is claimed to give what it gives applied once,
  for every input. On \<open>1.0.0\<close> the first application gives \<open>1.0\<close> and the second \<open>1\<close>:
  the pattern \<open>/\.0+$/\<close> removes one trailing group of zeros per call.
\<close>

theorem cleanId_not_idempotent:
  "cleanId (JStr (cleanId (JStr ''1.0.0''))) \<noteq> cleanId (JStr ''1.0.0'')"
  by (simp add: cleanId_def trim_def is_space_def strip_dot_zeros_def toLowerCase_def lower_char_def)

text \<open>
  C4 (amended). A second application of \<open>cleanId\<close> changes nothing exactly when the
  result of the first neither ends in a white space character nor still ends in a dot
  followed by zeros.
\<close>

theorem cleanId_idempotent_iff:
  "(cleanId (JStr (cleanId x)) = cleanId x) =
     (\<not> ends_with_space (cleanId x) \<and> strip_dot_zeros (cleanId x) = cleanId x)"
proof (cases "cleanId x = []")
  case True
  then show ?thesis
    by (simp add: ends_with_space_def) (simp add: cleanId_def trim_def strip_dot_zeros_def toLowerCase_def)
next
  case False
  let ?y = "cleanId x"
  have step: "cleanId (JStr ?y) = toLowerCase (strip_dot_zeros (trim ?y))"
    by (simp add: cleanId_def)
  have len: "length (cleanId (JStr ?y)) = length (strip_dot_zeros (trim ?y))"
    by (simp add: step toLowerCase_def)
  show ?thesis
  proof (cases "is_space (last ?y)")
    case True
    with False have "length (trim ?y) < length ?y" by (rule trim_shorter)
    with len strip_dot_zeros_length_le [of "trim ?y"] have "length (cleanId (JStr ?y)) < length ?y"
      by linarith
    then have "cleanId (JStr ?y) \<noteq> ?y" by auto
    with True False show ?thesis by (simp add: ends_with_space_def)
  next
    case nsp: False
    from False cleanId_hd_not_space nsp have tr: "trim ?y = ?y" by (intro trim_fixed) auto
    show ?thesis
    proof (cases "strip_dot_zeros ?y = ?y")
      case True
      with tr step cleanId_lower nsp show ?thesis by (simp add: ends_with_space_def)
    next
      case False
      then have "length (strip_dot_zeros ?y) < length ?y" by (rule strip_dot_zeros_shorter)
      with len tr have "cleanId (JStr ?y) \<noteq> ?y" by auto
      with False show ?thesis by simp
    qed
  qed
qed

theorem cleanId_idempotent_iff_witness:
  "cleanId (JStr (cleanId (JStr '' AB12345.00 ''))) = cleanId (JStr '' AB12345.00 '')
   \<and> cleanId (JStr '' AB12345.00 '') = ''ab12345''"
proof -
  have v: "cleanId (JStr '' AB12345.00 '') = ''ab12345''"
    by code_simp
  have "\<not> ends_with_space ''ab12345''" "strip_dot_zeros ''ab12345'' = ''ab12345''"
    by code_simp+
  with cleanId_idempotent_iff [of "JStr '' AB12345.00 ''"] v show ?thesis by simp
qed

section \<open>Properties of the array helpers\<close>

lemma array_find_first:
  assumes "i < length xs" "p (xs ! i)" "\<forall>j<i. \<not> p (xs ! j)"
  shows "array_find p xs = Some (xs ! i)"
  using assms
proof (induction xs arbitrary: i)
  case Nil
  then show ?case by simp
next
  case (Cons x xs)
  show ?case
  proof (cases i)
    case 0
    with Cons.prems show ?thesis by simp
  next
    case (Suc n)
    with Cons.prems have "\<not> p x" by auto
    moreover from Suc Cons.prems have "array_find p xs = Some (xs ! n)"
      by (intro Cons.IH) auto
    ultimately show ?thesis using Suc by simp
  qed
qed

lemma array_find_none: "(\<forall>x\<in>set xs. \<not> p x) \<Longrightarrow> array_find p xs = None"
  by (induction xs) simp_all

section \<open>Properties of Stage A\<close>

lemma recAmt_sample: "recAmt sample_record = Fin 100"
  by code_simp

lemma recLast4_sample: "recLast4 sample_record = ''5678''"
  by code_simp

lemma lit_0_05_value: "lit_0_05 = Fin (3602879701896397 / 72057594037927936)"
  by code_simp

lemma crossReferenceOpayo_nth:
  "k < length anomalies \<Longrightarrow>
     crossReferenceOpayo anomalies opayoData ! k = crossReferenceOpayo_record opayoData (anomalies ! k)"
  by (simp add: crossReferenceOpayo_def)

lemma crossReferencePenair_nth:
  "k < length anomalies \<Longrightarrow>
     crossReferencePenair anomalies penairData ! k = crossReferencePenair_record penairData (anomalies ! k)"
  by (simp add: crossReferencePenair_def)

text \<open>
  C2. Let the record at position \<open>k\<close> pass the precondition of Stage A (its cleaned amount
  is a number, its trimmed last four digits have at least four characters and are not
  \<open>N/A\<close>). If the capture row at index \<open>i\<close> is the first one, in the order of the list,
  whose \<open>last4\<close> equals the trimmed last four digits of the record and whose amount
  differs from the cleaned amount by less than \<open>0.05\<close>, then the output record is the
  input record with \<open>opayoMatch = MATCH\<close>, the reference of that row as it stands and
  its two address fields. If no capture row qualifies, the output record is the input
  record with \<open>opayoMatch = NO_MATCH\<close>.
\<close>

theorem crossReferenceOpayo_first_match:
  assumes "k < length anomalies"
    and "\<not> isNaN (recAmt (anomalies ! k))"
    and "4 \<le> length (recLast4 (anomalies ! k))"
    and "recLast4 (anomalies ! k) \<noteq> ''N/A''"
  shows "(\<forall>i<length opayoData.
            opayo_pred (anomalies ! k) (opayoData ! i)
            \<and> (\<forall>j<i. \<not> opayo_pred (anomalies ! k) (opayoData ! j)) \<longrightarrow>
            crossReferenceOpayo anomalies opayoData ! k =
              (anomalies ! k)\<lparr>opayoMatch := MATCH,
                               opayoReference := Some (reference (opayoData ! i)),
                               bookingAddress := Some (OpayoRow.bookingAddress (opayoData ! i)),
                               transAddress := Some (OpayoRow.transAddress (opayoData ! i))\<rparr>)
         \<and> ((\<forall>op\<in>set opayoData. \<not> opayo_pred (anomalies ! k) op) \<longrightarrow>
              crossReferenceOpayo anomalies opayoData ! k = (anomalies ! k)\<lparr>opayoMatch := NO_MATCH\<rparr>)"
proof (intro conjI allI impI)
  fix i
  assume "i < length opayoData"
    and "opayo_pred (anomalies ! k) (opayoData ! i)
         \<and> (\<forall>j<i. \<not> opayo_pred (anomalies ! k) (opayoData ! j))"
  then have "array_find (opayo_pred (anomalies ! k)) opayoData = Some (opayoData ! i)"
    by (intro array_find_first) auto
  with assms show "crossReferenceOpayo anomalies opayoData ! k =
      (anomalies ! k)\<lparr>opayoMatch := MATCH,
                       opayoReference := Some (reference (opayoData ! i)),
                       bookingAddress := Some (OpayoRow.bookingAddress (opayoData ! i)),
                       transAddress := Some (OpayoRow.transAddress (opayoData ! i))\<rparr>"
    by (simp add: crossReferenceOpayo_nth crossReferenceOpayo_record_def)
next
  assume "\<forall>op\<in>set opayoData. \<not> opayo_pred (anomalies ! k) op"
  then have "array_find (opayo_pred (anomalies ! k)) opayoData = None"
    by (rule array_find_none)
  with assms show "crossReferenceOpayo anomalies opayoData ! k = (anomalies ! k)\<lparr>opayoMatch := NO_MATCH\<rparr>"
    by (simp add: crossReferenceOpayo_nth crossReferenceOpayo_record_def)
qed

text \<open>
  Two capture rows qualify for the sample record (amount \<open>100\<close>): the first differs by
  \<open>0.03125\<close>, the second by nothing. The first one is chosen.
\<close>

lemma opayo_pred_sample:
  "opayo_pred sample_record (sample_capture (3201 / 32) ''R-1'')"
  "opayo_pred sample_record (sample_capture 100 ''R-2'')"
  by code_simp+

theorem crossReferenceOpayo_first_match_witness:
  "crossReferenceOpayo [sample_record]
       [sample_capture (3201 / 32) ''R-1'', sample_capture 100 ''R-2''] ! 0 =
     sample_record\<lparr>opayoMatch := MATCH, opayoReference := Some ''R-1'',
                    bookingAddress := Some ''1 High St'', transAddress := Some ''2 Low St''\<rparr>
   \<and> opayo_pred sample_record (sample_capture 100 ''R-2'')
   \<and> crossReferenceOpayo [sample_record] [sample_capture 101 ''R-3''] ! 0 =
       sample_record\<lparr>opayoMatch := NO_MATCH\<rparr>"
proof -
  have pre: "\<not> isNaN (recAmt sample_record)" "4 \<le> length (recLast4 sample_record)"
    "recLast4 sample_record \<noteq> ''N/A''"
    by (simp_all add: recAmt_sample recLast4_sample isNaN_def)
  have k: "0 < length [sample_record]" by simp
  have no: "\<not> opayo_pred sample_record (sample_capture 101 ''R-3'')"
    by code_simp
  note fm = crossReferenceOpayo_first_match [of 0 "[sample_record]", OF k] 
  have "crossReferenceOpayo [sample_record]
       [sample_capture (3201 / 32) ''R-1'', sample_capture 100 ''R-2''] ! 0 =
     sample_record\<lparr>opayoMatch := MATCH, opayoReference := Some ''R-1'',
                    bookingAddress := Some ''1 High St'', transAddress := Some ''2 Low St''\<rparr>"
    using fm [of "[sample_capture (3201 / 32) ''R-1'', sample_capture 100 ''R-2'']",
        THEN conjunct1, rule_format, of 0] pre opayo_pred_sample(1)
    by (simp add: sample_capture_def)
  moreover have "crossReferenceOpayo [sample_record] [sample_capture 101 ''R-3''] ! 0 =
       sample_record\<lparr>opayoMatch := NO_MATCH\<rparr>"
    using fm [of "[sample_capture 101 ''R-3'']", THEN conjunct2] pre no
    by simp
  ultimately show ?thesis using opayo_pred_sample(2) by simp
qed

section \<open>Properties of Stage B\<close>

text \<open>
  C5. Stage B sets \<open>penairMatch\<close> to \<open>N/A\<close> and attempts nothing when \<open>opayoMatch\<close> is not
  \<open>MATCH\<close> or the stored \<open>opayoReference\<close> is absent or empty. When \<open>opayoMatch\<close> is
  \<open>MATCH\<close> and the stored reference \<open>ref\<close> is not empty: if the booking row at index \<open>i\<close>
  is the first one, in the order of the list, whose cleaned \<open>inetRef\<close> equals the cleaned
  \<open>ref\<close>, the output record is the input record with \<open>penairMatch = MATCH\<close> and the
  eight booking fields of that row; if no booking row has an equal cleaned reference,
  the output record is the input record with \<open>penairMatch = NO_MATCH\<close>.
\<close>

theorem crossReferencePenair_linkage:
  assumes "k < length anomalies"
  shows "(opayoMatch (anomalies ! k) \<noteq> MATCH \<or> opayoReference (anomalies ! k) = None
            \<or> opayoReference (anomalies ! k) = Some [] \<longrightarrow>
          crossReferencePenair anomalies penairData ! k =
            (anomalies ! k)\<lparr>penairMatch := Some NOT_APPLICABLE\<rparr>)
       \<and> (opayoMatch (anomalies ! k) = MATCH \<and> opayoReference (anomalies ! k) = Some ref \<and> ref \<noteq> [] \<longrightarrow>
            (\<forall>i<length penairData.
               cleanId (JStr (inetRef (penairData ! i))) = cleanId (JStr ref)
               \<and> (\<forall>j<i. cleanId (JStr (inetRef (penairData ! j))) \<noteq> cleanId (JStr ref)) \<longrightarrow>
               crossReferencePenair anomalies penairData ! k =
                 (anomalies ! k)\<lparr>penairMatch := Some MATCH,
                    folderNumber := Some (PenairRow.folderNumber (penairData ! i)),
                    travelDate := Some (PenairRow.travelDate (penairData ! i)),
                    origin := Some (PenairRow.origin (penairData ! i)),
                    destination := Some (PenairRow.destination (penairData ! i)),
                    airlineCode := Some (PenairRow.airlineCode (penairData ! i)),
                    invoiceDate := Some (PenairRow.invoiceDate (penairData ! i)),
                    returnDate := Some (PenairRow.returnDate (penairData ! i)),
                    emailId := Some (PenairRow.emailId (penairData ! i))\<rparr>)
            \<and> ((\<forall>p\<in>set penairData. cleanId (JStr (inetRef p)) \<noteq> cleanId (JStr ref)) \<longrightarrow>
                 crossReferencePenair anomalies penairData ! k =
                   (anomalies ! k)\<lparr>penairMatch := Some NO_MATCH\<rparr>))"
proof (intro conjI allI impI)
  assume "opayoMatch (anomalies ! k) \<noteq> MATCH \<or> opayoReference (anomalies ! k) = None
            \<or> opayoReference (anomalies ! k) = Some []"
  then have "opayoMatch (anomalies ! k) \<noteq> MATCH \<or> not_opt (opayoReference (anomalies ! k))"
    by auto
  with assms show "crossReferencePenair anomalies penairData ! k =
            (anomalies ! k)\<lparr>penairMatch := Some NOT_APPLICABLE\<rparr>"
    by (simp add: crossReferencePenair_nth crossReferencePenair_record_def)
next
  fix i
  assume a: "opayoMatch (anomalies ! k) = MATCH \<and> opayoReference (anomalies ! k) = Some ref \<and> ref \<noteq> []"
    and i: "i < length penairData"
    and f: "cleanId (JStr (inetRef (penairData ! i))) = cleanId (JStr ref)
               \<and> (\<forall>j<i. cleanId (JStr (inetRef (penairData ! j))) \<noteq> cleanId (JStr ref))"
  from a have pred: "penair_pred (anomalies ! k) = (\<lambda>p. cleanId (JStr (inetRef p)) = cleanId (JStr ref))"
    by (simp add: penair_pred_def fun_eq_iff)
  from i f have "array_find (penair_pred (anomalies ! k)) penairData = Some (penairData ! i)"
    unfolding pred by (intro array_find_first) auto
  with assms a show "crossReferencePenair anomalies penairData ! k =
                 (anomalies ! k)\<lparr>penairMatch := Some MATCH,
                    folderNumber := Some (PenairRow.folderNumber (penairData ! i)),
                    travelDate := Some (PenairRow.travelDate (penairData ! i)),
                    origin := Some (PenairRow.origin (penairData ! i)),
                    destination := Some (PenairRow.destination (penairData ! i)),
                    airlineCode := Some (PenairRow.airlineCode (penairData ! i)),
                    invoiceDate := Some (PenairRow.invoiceDate (penairData ! i)),
                    returnDate := Some (PenairRow.returnDate (penairData ! i)),
                    emailId := Some (PenairRow.emailId (penairData ! i))\<rparr>"
    by (simp add: crossReferencePenair_nth crossReferencePenair_record_def)
next
  assume a: "opayoMatch (anomalies ! k) = MATCH \<and> opayoReference (anomalies ! k) = Some ref \<and> ref \<noteq> []"
    and n: "\<forall>p\<in>set penairData. cleanId (JStr (inetRef p)) \<noteq> cleanId (JStr ref)"
  from a have pred: "penair_pred (anomalies ! k) = (\<lambda>p. cleanId (JStr (inetRef p)) = cleanId (JStr ref))"
    by (simp add: penair_pred_def fun_eq_iff)
  from n have "array_find (penair_pred (anomalies ! k)) penairData = None"
    unfolding pred by (rule array_find_none)
  with assms a show "crossReferencePenair anomalies penairData ! k =
                   (anomalies ! k)\<lparr>penairMatch := Some NO_MATCH\<rparr>"
    by (simp add: crossReferencePenair_nth crossReferencePenair_record_def)
qed

text \<open>
  The captured reference \<open>55012.0\<close> and the booking reference \<open>55012\<close> clean to the same
  identifier; of the two booking rows that match, the earlier one is taken.
\<close>

lemma cleanId_55012:
  "cleanId (JStr ''55012.0'') = ''55012''"
  "cleanId (JStr ''55012'') = ''55012''"
  "cleanId (JStr ''AB-77'') = ''ab-77''"
  by code_simp+

theorem crossReferencePenair_linkage_witness:
  "crossReferencePenair
     [sample_record\<lparr>opayoMatch := MATCH, opayoReference := Some ''55012.0''\<rparr>]
     [sample_booking ''AB-77'' ''F0'', sample_booking ''55012'' ''F1'', sample_booking ''55012.0'' ''F2''] ! 0 =
   sample_record\<lparr>opayoMatch := MATCH, opayoReference := Some ''55012.0'',
      penairMatch := Some MATCH, folderNumber := Some ''F1'', travelDate := Some ''01/06/2023'',
      origin := Some ''LHR'', destination := Some ''DXB'', airlineCode := Some ''EK'',
      invoiceDate := Some ''02/05/2023'', returnDate := Some ''15/06/2023'',
      emailId := Some ''a@b.c''\<rparr>
   \<and> crossReferencePenair
       [sample_record\<lparr>opayoMatch := MATCH, opayoReference := Some ''55012.0''\<rparr>]
       [sample_booking ''AB-77'' ''F0''] ! 0 =
     sample_record\<lparr>opayoMatch := MATCH, opayoReference := Some ''55012.0'',
        penairMatch := Some NO_MATCH\<rparr>
   \<and> crossReferencePenair [sample_record\<lparr>opayoMatch := NO_MATCH\<rparr>]
       [sample_booking ''55012'' ''F1''] ! 0 =
     sample_record\<lparr>opayoMatch := NO_MATCH, penairMatch := Some NOT_APPLICABLE\<rparr>"
proof -
  let ?r = "sample_record\<lparr>opayoMatch := MATCH, opayoReference := Some ''55012.0''\<rparr>"
  let ?n = "sample_record\<lparr>opayoMatch := NO_MATCH\<rparr>"
  have k: "0 < length [?r]" "0 < length [?n]" by simp_all
  note lk = crossReferencePenair_linkage [of 0 "[?r]" _ "''55012.0''", OF k(1), THEN conjunct2, rule_format]
  have "crossReferencePenair [?r]
     [sample_booking ''AB-77'' ''F0'', sample_booking ''55012'' ''F1'', sample_booking ''55012.0'' ''F2''] ! 0 =
   ?r\<lparr>penairMatch := Some MATCH, folderNumber := Some ''F1'', travelDate := Some ''01/06/2023'',
      origin := Some ''LHR'', destination := Some ''DXB'', airlineCode := Some ''EK'',
      invoiceDate := Some ''02/05/2023'', returnDate := Some ''15/06/2023'',
      emailId := Some ''a@b.c''\<rparr>"
    using lk [THEN conjunct1, rule_format, where i = 1
        and penairData = "[sample_booking ''AB-77'' ''F0'', sample_booking ''55012'' ''F1'', sample_booking ''55012.0'' ''F2'']"]
    by (simp add: sample_booking_def cleanId_55012)
  moreover have "crossReferencePenair [?r] [sample_booking ''AB-77'' ''F0''] ! 0 =
     ?r\<lparr>penairMatch := Some NO_MATCH\<rparr>"
    using lk [THEN conjunct2, rule_format, where penairData = "[sample_booking ''AB-77'' ''F0'']"]
    by (simp add: sample_booking_def cleanId_55012)
  moreover have "crossReferencePenair [?n] [sample_booking ''55012'' ''F1''] ! 0 =
     ?n\<lparr>penairMatch := Some NOT_APPLICABLE\<rparr>"
    using crossReferencePenair_linkage [of 0 "[?n]" "[sample_booking ''55012'' ''F1'']", OF k(2), THEN conjunct1]
    by simp
  ultimately show ?thesis by simp
qed

section \<open>Properties of the two stages on an empty capture list\<close>

lemma crossReferencePenair_record_opayoMatch:
  "opayoMatch (crossReferencePenair_record penairData r) = opayoMatch r"
  by (simp add: crossReferencePenair_record_def split: option.splits)

lemma crossReferenceOpayo_record_empty:
  "crossReferenceOpayo_record [] r =
     r\<lparr>opayoMatch := (if isNaN (recAmt r) \<or> length (recLast4 r) < 4 \<or> recLast4 r = ''N/A''
                        then NOT_APPLICABLE else NO_MATCH)\<rparr>"
  by (simp add: crossReferenceOpayo_record_def)

lemma crossReferenceOpayo_record_empty_ne:
  "opayoMatch (crossReferenceOpayo_record [] r) \<noteq> MATCH"
  by (simp add: crossReferenceOpayo_record_empty)

text \<open>
  C6 (as stated). With an empty capture list every record is claimed to end with
  \<open>opayoMatch = N/A\<close>. The sample record has a parseable amount and four last digits;
  Stage A scans the empty list for it and sets \<open>NO_MATCH\<close>.
\<close>

theorem empty_capture_list_counterexample:
  "opayoMatch (crossReferencePenair (crossReferenceOpayo [sample_record] [])
                 [sample_booking ''55012'' ''F1''] ! 0) \<noteq> NOT_APPLICABLE"
  by (simp add: crossReferencePenair_def crossReferenceOpayo_def
      crossReferencePenair_record_opayoMatch crossReferenceOpayo_record_empty
      recAmt_sample recLast4_sample isNaN_def)

text \<open>
  C6 (amended). With an empty capture list, after both stages, there is one output record
  per input record and every record has \<open>penairMatch = N/A\<close>, whatever the booking rows
  are. A record whose cleaned amount is \<open>NaN\<close>, or whose trimmed last four digits are
  shorter than four characters or \<open>N/A\<close>, has \<open>opayoMatch = N/A\<close>; a record whose cleaned
  amount is a number other than \<open>0\<close> and whose trimmed last four digits are valid has
  \<open>opayoMatch = NO_MATCH\<close>. Nothing is said of \<open>opayoMatch\<close> for a record with valid last
  four digits whose amount cleans to \<open>0\<close> (an empty, digit-free or zero amount).
\<close>

theorem empty_capture_list:
  "length (crossReferencePenair (crossReferenceOpayo anomalies []) penairData) = length anomalies
   \<and> map penairMatch (crossReferencePenair (crossReferenceOpayo anomalies []) penairData) =
       map (\<lambda>r. Some NOT_APPLICABLE) anomalies
   \<and> (\<forall>k<length anomalies.
         (isNaN (recAmt (anomalies ! k)) \<or> length (recLast4 (anomalies ! k)) < 4
            \<or> recLast4 (anomalies ! k) = ''N/A'' \<longrightarrow>
          opayoMatch (crossReferencePenair (crossReferenceOpayo anomalies []) penairData ! k) =
            NOT_APPLICABLE)
       \<and> (\<not> isNaN (recAmt (anomalies ! k)) \<and> recAmt (anomalies ! k) \<noteq> Fin 0
            \<and> 4 \<le> length (recLast4 (anomalies ! k)) \<and> recLast4 (anomalies ! k) \<noteq> ''N/A'' \<longrightarrow>
          opayoMatch (crossReferencePenair (crossReferenceOpayo anomalies []) penairData ! k) =
            NO_MATCH))"
proof (intro conjI allI impI)
  show "length (crossReferencePenair (crossReferenceOpayo anomalies []) penairData) = length anomalies"
    by (simp add: crossReferencePenair_def crossReferenceOpayo_def)
next
  have "penairMatch (crossReferencePenair_record penairData (crossReferenceOpayo_record [] r)) =
      Some NOT_APPLICABLE" for r
    using crossReferenceOpayo_record_empty_ne [of r]
    by (simp add: crossReferencePenair_record_def)
  then show "map penairMatch (crossReferencePenair (crossReferenceOpayo anomalies []) penairData) =
       map (\<lambda>r. Some NOT_APPLICABLE) anomalies"
    by (simp add: crossReferencePenair_def crossReferenceOpayo_def)
next
  fix k
  assume k: "k < length anomalies"
    and na: "isNaN (recAmt (anomalies ! k)) \<or> length (recLast4 (anomalies ! k)) < 4
            \<or> recLast4 (anomalies ! k) = ''N/A''"
  from k have "opayoMatch (crossReferencePenair (crossReferenceOpayo anomalies []) penairData ! k) =
      opayoMatch (crossReferenceOpayo_record [] (anomalies ! k))"
    by (simp add: crossReferencePenair_def crossReferenceOpayo_def
        crossReferencePenair_record_opayoMatch)
  with na show "opayoMatch (crossReferencePenair (crossReferenceOpayo anomalies []) penairData ! k) =
      NOT_APPLICABLE"
    by (simp add: crossReferenceOpayo_record_empty)
next
  fix k
  assume k: "k < length anomalies"
    and ok: "\<not> isNaN (recAmt (anomalies ! k)) \<and> recAmt (anomalies ! k) \<noteq> Fin 0
            \<and> 4 \<le> length (recLast4 (anomalies ! k)) \<and> recLast4 (anomalies ! k) \<noteq> ''N/A''"
  from k have "opayoMatch (crossReferencePenair (crossReferenceOpayo anomalies []) penairData ! k) =
      opayoMatch (crossReferenceOpayo_record [] (anomalies ! k))"
    by (simp add: crossReferencePenair_def crossReferenceOpayo_def
        crossReferencePenair_record_opayoMatch)
  with ok show "opayoMatch (crossReferencePenair (crossReferenceOpayo anomalies []) penairData ! k) =
      NO_MATCH"
    by (simp add: crossReferenceOpayo_record_empty)
qed

text \<open>
  The sample record (amount \<open>100\<close>, last four digits \<open>5678\<close>) ends \<open>NO_MATCH\<close>, the same
  record with the last four digits \<open>N/A\<close> ends \<open>N/A\<close>, and both end with
  \<open>penairMatch = N/A\<close>.
\<close>

theorem empty_capture_list_witness:
  "opayoMatch (crossReferencePenair
       (crossReferenceOpayo [sample_record, sample_record\<lparr>cardLast4 := ''N/A''\<rparr>] [])
       [sample_booking ''55012'' ''F1''] ! 0) = NO_MATCH
   \<and> opayoMatch (crossReferencePenair
       (crossReferenceOpayo [sample_record, sample_record\<lparr>cardLast4 := ''N/A''\<rparr>] [])
       [sample_booking ''55012'' ''F1''] ! 1) = NOT_APPLICABLE
   \<and> map penairMatch (crossReferencePenair
       (crossReferenceOpayo [sample_record, sample_record\<lparr>cardLast4 := ''N/A''\<rparr>] [])
       [sample_booking ''55012'' ''F1'']) = [Some NOT_APPLICABLE, Some NOT_APPLICABLE]"
proof -
  let ?as = "[sample_record, sample_record\<lparr>cardLast4 := ''N/A''\<rparr>]"
  let ?ps = "[sample_booking ''55012'' ''F1'']"
  note ecl = empty_capture_list [of ?as ?ps]
  have na: "recLast4 (sample_record\<lparr>cardLast4 := ''N/A''\<rparr>) = ''N/A''"
    by code_simp
  have ok: "\<not> isNaN (recAmt sample_record) \<and> recAmt sample_record \<noteq> Fin 0
      \<and> 4 \<le> length (recLast4 sample_record) \<and> recLast4 sample_record \<noteq> ''N/A''"
    by (simp add: recAmt_sample recLast4_sample isNaN_def)
  have "opayoMatch (crossReferencePenair (crossReferenceOpayo ?as []) ?ps ! 0) = NO_MATCH"
    using ecl [THEN conjunct2, THEN conjunct2, rule_format, of 0, THEN conjunct2] ok by simp
  moreover have "opayoMatch (crossReferencePenair (crossReferenceOpayo ?as []) ?ps ! 1) =
      NOT_APPLICABLE"
    using ecl [THEN conjunct2, THEN conjunct2, rule_format, of 1, THEN conjunct1] na by simp
  moreover have "map penairMatch (crossReferencePenair (crossReferenceOpayo ?as []) ?ps) =
      [Some NOT_APPLICABLE, Some NOT_APPLICABLE]"
    using ecl [THEN conjunct2, THEN conjunct1] by simp
  ultimately show ?thesis by simp
qed

section \<open>Stage A on an empty amount\<close>

lemma recAmt_empty:
  "recAmt (sample_record\<lparr>transactionAmount := JStr []\<rparr>) = Fin 0"
  "recAmt (sample_record\<lparr>transactionAmount := JStr ''n/a''\<rparr>) = Fin 0"
  "recAmt (sample_record\<lparr>transactionAmount := JNum (Fin 0)\<rparr>) = Fin 0"
  "recLast4 (sample_record\<lparr>transactionAmount := JStr []\<rparr>) = ''5678''"
  "recLast4 (sample_record\<lparr>transactionAmount := JStr ''n/a''\<rparr>) = ''5678''"
  by code_simp+

lemma opayo_pred_empty:
  "opayo_pred (sample_record\<lparr>transactionAmount := JStr ''n/a''\<rparr>) (sample_capture (1 / 32) ''R-9'')"
  by code_simp

text \<open>
  C7. The claim has an empty amount, or one without digits, count as unparseable, so that
  Stage A sets \<open>N/A\<close> and attempts no match. In the code \<open>Number("")\<close> is \<open>0\<close>, which
  \<open>isNaN\<close> accepts: the match is attempted with the amount \<open>0\<close>. With no capture row the
  record ends \<open>NO_MATCH\<close>; with a capture row of amount \<open>0.03125\<close> and the same last
  four digits it ends \<open>MATCH\<close>.
\<close>

theorem empty_amount_is_matched:
  "crossReferenceOpayo [sample_record\<lparr>transactionAmount := JStr []\<rparr>] [] =
     [sample_record\<lparr>transactionAmount := JStr [], opayoMatch := NO_MATCH\<rparr>]
   \<and> crossReferenceOpayo [sample_record\<lparr>transactionAmount := JStr ''n/a''\<rparr>]
        [sample_capture (1 / 32) ''R-9''] =
     [sample_record\<lparr>transactionAmount := JStr ''n/a'', opayoMatch := MATCH,
        opayoReference := Some ''R-9'', bookingAddress := Some ''1 High St'',
        transAddress := Some ''2 Low St''\<rparr>]"
  using opayo_pred_empty
  by (simp add: crossReferenceOpayo_def crossReferenceOpayo_record_def recAmt_empty isNaN_def
      sample_capture_def)

section \<open>Frame of the two stages\<close>

lemma stageA_frame_record: "stageA_frame (crossReferenceOpayo_record opayoData r) = stageA_frame r"
  by (simp add: crossReferenceOpayo_record_def stageA_frame_def split: option.splits)

lemma stageB_frame_record: "stageB_frame (crossReferencePenair_record penairData r) = stageB_frame r"
  by (simp add: crossReferencePenair_record_def stageB_frame_def split: option.splits)

text \<open>What the two frames compare: every field but those the stage sets.\<close>

lemma stageA_frame_eq_iff:
  "stageA_frame r = stageA_frame r' \<longleftrightarrow>
     cycle r = cycle r' \<and> merchant r = merchant r' \<and> dueDate r = dueDate r'
     \<and> caseReference r = caseReference r' \<and> reasonCode r = reasonCode r'
     \<and> reasonCategory r = reasonCategory r' \<and> transactionDate r = transactionDate r'
     \<and> transactionAmount r = transactionAmount r' \<and> datePost r = datePost r'
     \<and> disputeAmount r = disputeAmount r' \<and> cardLast4 r = cardLast4 r'
     \<and> penairMatch r = penairMatch r' \<and> folderNumber r = folderNumber r'
     \<and> travelDate r = travelDate r' \<and> origin r = origin r' \<and> destination r = destination r'
     \<and> airlineCode r = airlineCode r' \<and> invoiceDate r = invoiceDate r'
     \<and> returnDate r = returnDate r' \<and> emailId r = emailId r'
     \<and> originalRow r = originalRow r' \<and> importDate r = importDate r'
     \<and> sourceReport r = sourceReport r' \<and> ts r = ts r'"
  by (cases r, cases r') (auto simp: stageA_frame_def)

lemma stageB_frame_eq_iff:
  "stageB_frame r = stageB_frame r' \<longleftrightarrow>
     cycle r = cycle r' \<and> merchant r = merchant r' \<and> dueDate r = dueDate r'
     \<and> caseReference r = caseReference r' \<and> reasonCode r = reasonCode r'
     \<and> reasonCategory r = reasonCategory r' \<and> transactionDate r = transactionDate r'
     \<and> transactionAmount r = transactionAmount r' \<and> datePost r = datePost r'
     \<and> disputeAmount r = disputeAmount r' \<and> cardLast4 r = cardLast4 r'
     \<and> opayoMatch r = opayoMatch r' \<and> opayoReference r = opayoReference r'
     \<and> bookingAddress r = bookingAddress r' \<and> transAddress r = transAddress r'
     \<and> originalRow r = originalRow r' \<and> importDate r = importDate r'
     \<and> sourceReport r = sourceReport r' \<and> ts r = ts r'"
  by (cases r, cases r') (auto simp: stageB_frame_def)

text \<open>
  C10. Each stage returns one output record per input record, in the same order, and an
  output record differs from its input record at most in the fields the stage sets:
  blanking those fields (\<open>stageA_frame\<close>, \<open>stageB_frame\<close>) makes the output list equal to
  the input list. Both functions are pure, in the source (\<open>map\<close> and an object spread
  build new objects) as in the model: the input list and its records are left as they
  were.
\<close>

theorem cross_reference_frame:
  "length (crossReferenceOpayo anomalies opayoData) = length anomalies
   \<and> map stageA_frame (crossReferenceOpayo anomalies opayoData) = map stageA_frame anomalies
   \<and> length (crossReferencePenair anomalies penairData) = length anomalies
   \<and> map stageB_frame (crossReferencePenair anomalies penairData) = map stageB_frame anomalies"
  by (simp add: crossReferenceOpayo_def crossReferencePenair_def stageA_frame_record
      stageB_frame_record)

section \<open>Properties of the header mapping\<close>

lemma findIndex_from_find:
  "0 \<le> i \<Longrightarrow>
     (case List.find p xs of
        None \<Rightarrow> findIndex_from i p xs = - 1
      | Some x \<Rightarrow> i \<le> findIndex_from i p xs \<and> nat (findIndex_from i p xs - i) < length xs
                  \<and> xs ! nat (findIndex_from i p xs - i) = x)"
proof (induction xs arbitrary: i)
  case Nil
  then show ?case by simp
next
  case (Cons y ys)
  show ?case
  proof (cases "p y")
    case True
    with Cons.prems show ?thesis by simp
  next
    case False
    from Cons.prems have i1: "0 \<le> i + 1" by simp
    show ?thesis
    proof (cases "List.find p ys")
      case None
      with Cons.IH [OF i1] False show ?thesis by simp
    next
      case (Some x)
      let ?F = "findIndex_from (i + 1) p ys"
      from Cons.IH [OF i1] Some
      have f: "i + 1 \<le> ?F" "nat (?F - (i + 1)) < length ys" "ys ! nat (?F - (i + 1)) = x"
        by simp_all
      from f(1) have n: "nat (?F - i) = Suc (nat (?F - (i + 1)))" by linarith
      from f n False Some show ?thesis by simp
    qed
  qed
qed

lemma find_via_index:
  "(if findIndex p xs \<noteq> - 1 then Some (xs ! nat (findIndex p xs)) else None) = List.find p xs"
  using findIndex_from_find [of 0 p xs] by (auto simp: findIndex_def split: option.splits)

lemma findIndex_from_map: "findIndex_from i q (map f xs) = findIndex_from i (\<lambda>x. q (f x)) xs"
  by (induction xs arbitrary: i) simp_all

lemma find_via_index_map:
  "(if findIndex q (map f xs) \<noteq> - 1 then Some (xs ! nat (findIndex q (map f xs))) else None) =
     List.find (\<lambda>x. q (f x)) xs"
  using find_via_index [of "\<lambda>x. q (f x)" xs] unfolding findIndex_def findIndex_from_map .

lemma find_via_indexOf:
  "(if indexOf (map f xs) v \<noteq> - 1 then Some (xs ! nat (indexOf (map f xs) v)) else None) =
     List.find (\<lambda>x. f x = v) xs"
  unfolding indexOf_def by (rule find_via_index_map)

lemma findKey_loop1_tiers:
  "findKey_loop1 keys (map normalize_key keys) aliases =
     first_hit (\<lambda>t. case tier1 keys t of Some k \<Rightarrow> Some k | None \<Rightarrow> tier2 keys t) aliases"
proof (induction aliases)
  case Nil
  show ?case by simp
next
  case (Cons t ts)
  have a: "(if findIndex (\<lambda>k. toLowerCase (trim k) = toLowerCase (trim t)) keys \<noteq> - 1
            then Some (keys ! nat (findIndex (\<lambda>k. toLowerCase (trim k) = toLowerCase (trim t)) keys))
            else None) = tier1 keys t"
    unfolding tier1_def by (rule find_via_index)
  have b: "(if indexOf (map normalize_key keys) (normalize_key t) \<noteq> - 1
            then Some (keys ! nat (indexOf (map normalize_key keys) (normalize_key t)))
            else None) = tier2 keys t"
    unfolding tier2_def by (rule find_via_indexOf)
  show ?case
  proof (cases "tier1 keys t")
    case (Some k)
    with a show ?thesis by (simp add: Let_def split: if_splits)
  next
    case None
    note n1 = this
    with a have e: "findIndex (\<lambda>k. toLowerCase (trim k) = toLowerCase (trim t)) keys = - 1"
      by (simp split: if_splits)
    show ?thesis
    proof (cases "tier2 keys t")
      case (Some k)
      with b e n1 show ?thesis by (simp add: Let_def split: if_splits)
    next
      case None
      with b e n1 Cons.IH show ?thesis by (simp add: Let_def split: if_splits)
    qed
  qed
qed

lemma findKey_loop2_tier:
  "findKey_loop2 keys (map normalize_key keys) aliases = first_hit (tier3 keys) aliases"
proof (induction aliases)
  case Nil
  show ?case by simp
next
  case (Cons t ts)
  have a: "(if findIndex (\<lambda>k. str_includes k (normalize_key t)) (map normalize_key keys) \<noteq> - 1
            then Some (keys ! nat (findIndex (\<lambda>k. str_includes k (normalize_key t)) (map normalize_key keys)))
            else None) = tier3 keys t"
    unfolding tier3_def by (rule find_via_index_map)
  show ?case
  proof (cases "tier3 keys t")
    case (Some k)
    with a show ?thesis by (simp add: Let_def split: if_splits)
  next
    case None
    with a Cons.IH show ?thesis by (simp add: Let_def split: if_splits)
  qed
qed

text \<open>
  C3 (as stated). The claim has tier 1 tried against the entire alias list before tier 2,
  so that a later alias matching at tier 1 beats an earlier alias matching only at
  tier 2. For the headers \<open>Reference\<close> and \<open>Case Ref.\<close> and the aliases of the case
  reference column, \<open>findKey\<close> returns \<open>Case Ref.\<close> (the second alias, at tier 2), where
  the tier-by-tier resolution returns \<open>Reference\<close> (the fourth alias, at tier 1).
\<close>

theorem findKey_not_tiered:
  "findKey sample_headers caseReference_keys = Some ''Case Ref.''
   \<and> findKey_tiered sample_headers caseReference_keys = Some ''Reference''"
  by code_simp

text \<open>
  C3 (amended). \<open>findKey\<close> goes through the alias list once trying, for each alias, tier 1
  and then tier 2 against all the headers, and returns the first hit; only when no alias
  matches at tier 1 or tier 2 does it go through the alias list again with tier 3. So an
  earlier alias matching at tier 2 beats a later alias matching at tier 1, and any alias
  matching at tier 1 or 2 beats every alias matching only at tier 3.
\<close>

theorem findKey_tier_order:
  "findKey row aliases =
     (case first_hit (\<lambda>t. case tier1 (object_keys row) t of
                              Some k \<Rightarrow> Some k
                            | None \<Rightarrow> tier2 (object_keys row) t) aliases of
        Some k \<Rightarrow> Some k
      | None \<Rightarrow> first_hit (tier3 (object_keys row)) aliases)"
  by (simp add: findKey_def Let_def findKey_loop1_tiers findKey_loop2_tier split: option.splits)

theorem findKey_tier_order_witness:
  "findKey sample_headers caseReference_keys = Some ''Case Ref.''
   \<and> tier1 (object_keys sample_headers) ''case ref'' = None
   \<and> tier2 (object_keys sample_headers) ''case ref'' = Some ''Case Ref.''
   \<and> tier1 (object_keys sample_headers) ''reference'' = Some ''Reference''"
proof -
  have "tier1 (object_keys sample_headers) ''case reference'' = None"
    "tier2 (object_keys sample_headers) ''case reference'' = None"
    "tier1 (object_keys sample_headers) ''case ref'' = None"
    "tier2 (object_keys sample_headers) ''case ref'' = Some ''Case Ref.''"
    "tier1 (object_keys sample_headers) ''reference'' = Some ''Reference''"
    by code_simp+
  with findKey_tier_order [of sample_headers caseReference_keys] show ?thesis
    by (simp add: caseReference_keys_def)
qed

section \<open>Properties of the capture rows\<close>

text \<open>
  C8. Every record that \<open>parseOpayoData\<close> returns has an amount other than \<open>0\<close> and a
  \<open>last4\<close> of exactly four characters. When the amount column or the last-4 column
  cannot be resolved from the first row, the result is the empty list. When both are
  resolved, the result is the list of the records built from the rows, in order, without
  those that fail the condition.
\<close>

theorem parseOpayoData_retained:
  "(\<forall>r\<in>set (parseOpayoData rows). amount r \<noteq> Fin 0 \<and> length (last4 r) = 4)
   \<and> (rows \<noteq> []
         \<and> (findKey (hd rows) opayo_amount_keys = None \<or> findKey (hd rows) opayo_last4_keys = None)
         \<longrightarrow> parseOpayoData rows = [])
   \<and> (\<forall>ka kl. rows \<noteq> []
         \<and> findKey (hd rows) opayo_amount_keys = Some ka \<and> ka \<noteq> []
         \<and> findKey (hd rows) opayo_last4_keys = Some kl \<and> kl \<noteq> []
         \<longrightarrow> parseOpayoData rows =
               filter (\<lambda>r. amount r \<noteq> Fin 0 \<and> length (last4 r) = 4)
                 (map (parseOpayoRow ka kl
                         (findKey (hd rows) opayo_reference_keys)
                         (findKey (hd rows) opayo_bookingAddress_keys)
                         (findKey (hd rows) opayo_transAddress_keys)) rows))"
proof (intro conjI allI impI)
  show "\<forall>r\<in>set (parseOpayoData rows). amount r \<noteq> Fin 0 \<and> length (last4 r) = 4"
    by (auto simp: parseOpayoData_def Let_def split: list.splits option.splits if_splits)
next
  assume "rows \<noteq> []
         \<and> (findKey (hd rows) opayo_amount_keys = None \<or> findKey (hd rows) opayo_last4_keys = None)"
  then show "parseOpayoData rows = []"
    by (auto simp: parseOpayoData_def Let_def split: list.splits option.splits)
next
  fix ka kl
  assume "rows \<noteq> []
         \<and> findKey (hd rows) opayo_amount_keys = Some ka \<and> ka \<noteq> []
         \<and> findKey (hd rows) opayo_last4_keys = Some kl \<and> kl \<noteq> []"
  then show "parseOpayoData rows =
               filter (\<lambda>r. amount r \<noteq> Fin 0 \<and> length (last4 r) = 4)
                 (map (parseOpayoRow ka kl
                         (findKey (hd rows) opayo_reference_keys)
                         (findKey (hd rows) opayo_bookingAddress_keys)
                         (findKey (hd rows) opayo_transAddress_keys)) rows)"
    by (cases rows) (simp_all add: parseOpayoData_def Let_def)
qed

lemma parseOpayoData_sample:
  "parseOpayoData sample_capture_rows =
     [\<lparr>amount = Fin (3519492740045865 / 35184372088832), last4 = ''5678'', reference = ''R-99'',
       OpayoRow.bookingAddress = [], OpayoRow.transAddress = []\<rparr>]"
  by code_simp

lemma findKey_unresolved:
  "unresolved_capture_rows \<noteq> []"
  "findKey (hd unresolved_capture_rows) opayo_amount_keys = None"
  by code_simp+

theorem parseOpayoData_retained_witness:
  "parseOpayoData sample_capture_rows =
     [\<lparr>amount = Fin (3519492740045865 / 35184372088832), last4 = ''5678'', reference = ''R-99'',
       OpayoRow.bookingAddress = [], OpayoRow.transAddress = []\<rparr>]
   \<and> Fin (3519492740045865 / 35184372088832) \<noteq> Fin 0 \<and> length ''5678'' = 4
   \<and> findKey (hd unresolved_capture_rows) opayo_amount_keys = None
   \<and> parseOpayoData unresolved_capture_rows = []"
proof -
  have "parseOpayoData unresolved_capture_rows = []"
    using parseOpayoData_retained [of unresolved_capture_rows, THEN conjunct2, THEN conjunct1]
      findKey_unresolved
    by blast
  moreover have "Fin (3519492740045865 / 35184372088832) \<noteq> Fin 0 \<and> length ''5678'' = 4"
    using parseOpayoData_retained [of sample_capture_rows, THEN conjunct1]
    unfolding parseOpayoData_sample by simp
  ultimately show ?thesis using parseOpayoData_sample findKey_unresolved(2) by blast
qed

section \<open>Properties of the serial dates\<close>

text \<open>
  C9 (as stated). Every value that is not read as a serial is claimed to be passed
  through unchanged. The empty string gives \<open>N/A\<close>, and a date string with surrounding
  blanks is returned trimmed. The bound \<open>29000\<close> itself is not read as a serial.
\<close>

theorem formatExcelDate_not_passthrough:
  "formatExcelDate number_toString (JStr []) = ''N/A''
   \<and> formatExcelDate number_toString (JStr '' 12/05/2023 '') = ''12/05/2023''
   \<and> formatExcelDate number_toString (JStr ''29000'') = ''29000''"
  by code_simp

text \<open>
  C9 (amended). An absent, empty or zero value and the string \<open>N/A\<close> give \<open>N/A\<close>.
  Otherwise, with \<open>s\<close> the trimmed string form of the value: exactly when \<open>s\<close> is five
  digits, optionally followed by a dot and more digits, and its value is strictly
  between \<open>29000\<close> and \<open>60000\<close>, the result is the locale date string of the time value
  \<open>round((s - 25569) * 86400 * 1000)\<close>; in every other case the result is \<open>s\<close>.
\<close>

theorem formatExcelDate_cases:
  "formatExcelDate toLocaleDateString v =
     (if falsy v \<or> v = JStr ''N/A'' then ''N/A''
      else if is_serial_pattern (trim (js_String v))
              \<and> num_less (Fin 29000) (js_parseFloat (trim (js_String v)))
              \<and> num_less (js_parseFloat (trim (js_String v))) (Fin 60000)
           then toLocaleDateString
                  (math_round (num_mul (num_mul
                     (num_sub (js_parseFloat (trim (js_String v))) (Fin 25569))
                     (Fin 86400)) (Fin 1000)))
           else trim (js_String v))"
  by (simp add: formatExcelDate_def Let_def)

theorem formatExcelDate_cases_witness:
  "formatExcelDate number_toString (JStr '' 45000.5 '') = ''1678881600000''
   \<and> formatExcelDate number_toString (JNum (Fin 45000)) = ''1678838400000''
   \<and> formatExcelDate number_toString (JStr ''60000'') = ''60000''
   \<and> formatExcelDate number_toString (JNum (Fin 0)) = ''N/A''"
  unfolding formatExcelDate_cases by code_simp

text \<open>
  The conversion itself, for a serial written as five digits: the time value handed to the
  locale formatting is the number of milliseconds in \<open>n - 25569\<close> days, with no rounding
  error.
\<close>

lemma formatExcelDate_integer_serial:
  assumes "length ds = 5" "list_all is_digit ds"
    and "29000 < digits_value ds" "digits_value ds < 60000"
  shows "formatExcelDate toLocaleDateString (JStr ds) =
           toLocaleDateString (Fin (of_int ((digits_value ds - 25569) * 86400 * 1000)))"
proof -
  from assms(1) have ne: "ds \<noteq> []" by auto
  with assms(2) have "is_digit (hd ds)" "is_digit (last ds)"
    by (auto simp: list_all_iff)
  with ne have tr: "trim ds = ds" by (intro trim_fixed) (simp_all add: is_digit_not_space)
  from assms(1) have na: "ds \<noteq> ''N/A''" by auto
  from assms(1,2) have pat: "is_serial_pattern ds" by (simp add: is_serial_pattern_def)
  have pf: "js_parseFloat ds = Fin (of_int (digits_value ds))"
    using scan_decimal_digits [OF ne assms(2)] assms(3,4)
      to_double_of_nat_exact [of "digits_value ds"]
    by (simp add: js_parseFloat_def)
  from assms(3,4) have rng: "num_less (Fin 29000) (Fin (of_int (digits_value ds)))"
      "num_less (Fin (of_int (digits_value ds))) (Fin 60000)"
    by simp_all
  show ?thesis
    using ne na pat rng serial_time_value [OF assms(3,4)]
    by (simp add: formatExcelDate_def tr pf)
qed

end
